theory Spec2Isabelle
  imports Complex_Main "HOL-Library.AList" "HOL-Library.Sublist"
begin

section \<open>JavaScript values used by both scripts\<close>

text \<open>
  Strings are lists of code units; the model covers code units below 256, written as
  \<^typ>\<open>char\<close>. Numbers are integers, written as
  \<^typ>\<open>int\<close>. A property that may be absent (\<open>undefined\<close> or
  \<open>null\<close>) is an \<open>option\<close>. Every \<open>new Date().toISOString()\<close>
  read during one call is the caller-supplied \<open>now\<close>; every random or clock-based
  identifier is a caller-supplied string.
\<close>

type_synonym timestamp = string

datatype js_error = Error string | TypeError string

fun error_message :: "js_error \<Rightarrow> string" where
  "error_message (Error m) = m"
| "error_message (TypeError m) = m"

definition dquote :: char where
  "dquote = CHR 0x22"

text \<open>The class \<open>\s\<close> of a JavaScript regular expression, which is also what
  \<open>trim\<close> strips: tab, line feed, vertical tab, form feed, carriage return, space and
  the no-break space (the members below 256).\<close>

definition js_space :: "char \<Rightarrow> bool" where
  "js_space c = (c = CHR 0x09 \<or> c = CHR 0x0A \<or> c = CHR 0x0B \<or> c = CHR 0x0C
                 \<or> c = CHR 0x0D \<or> c = CHR 0x20 \<or> c = CHR 0xA0)"

definition trim :: "string \<Rightarrow> string" where
  "trim s = rev (dropWhile js_space (rev (dropWhile js_space s)))"

text \<open>\<open>toUpperCase\<close> on the ASCII letters; other code units are kept.\<close>

definition upper_char :: "char \<Rightarrow> char" where
  "upper_char c =
     (case map_of (zip ''abcdefghijklmnopqrstuvwxyz'' ''ABCDEFGHIJKLMNOPQRSTUVWXYZ'') c of
        Some u \<Rightarrow> u
      | None \<Rightarrow> c)"

definition toUpperCase :: "string \<Rightarrow> string" where
  "toUpperCase s = map upper_char s"

text \<open>\<open>Array.prototype.join\<close>.\<close>

fun join :: "string \<Rightarrow> string list \<Rightarrow> string" where
  "join sep [] = []"
| "join sep [x] = x"
| "join sep (x # y # ys) = x @ sep @ join sep (y # ys)"

text \<open>\<open>String.prototype.includes\<close>.\<close>

fun str_includes :: "string \<Rightarrow> string \<Rightarrow> bool" where
  "str_includes [] k = (k = [])"
| "str_includes (c # cs) k = (take (length k) (c # cs) = k \<or> str_includes cs k)"

text \<open>Truthiness of a possibly absent string, and \<open>x || d\<close> on it.\<close>

fun truthy :: "string option \<Rightarrow> bool" where
  "truthy None = False"
| "truthy (Some s) = (s \<noteq> [])"

fun or_str :: "string option \<Rightarrow> string \<Rightarrow> string" where
  "or_str None d = d"
| "or_str (Some s) d = (if s \<noteq> [] then s else d)"

text \<open>\<open>x || d\<close> on a possibly absent number: zero is falsy.\<close>

fun or_num :: "int option \<Rightarrow> int \<Rightarrow> int" where
  "or_num None d = d"
| "or_num (Some n) d = (if n \<noteq> 0 then n else d)"

text \<open>\<open>Array.prototype.slice(-n)\<close>: the last \<open>n\<close> elements.\<close>

definition slice_last :: "nat \<Rightarrow> 'a list \<Rightarrow> 'a list" where
  "slice_last n xs = drop (length xs - n) xs"

section \<open>The input processor (DAS-Delta-Green-Input-Script.js)\<close>

subsection \<open>tokenizeInput\<close>

text \<open>
  The regular expression is \<open>/[^\s"]+|"([^"]*)"/g\<close>. One \<open>exec\<close> finds
  the leftmost match in the remaining input: at a code unit that is neither white space
  nor a quote the first alternative takes the longest run of such code units; at a quote
  the second alternative matches when a closing quote follows, and captures what lies
  between; otherwise the search moves one code unit on. \<open>regex_exec\<close> returns
  the whole match, the capture group (absent for the first alternative) and the input
  after the match.
\<close>

definition word_char :: "char \<Rightarrow> bool" where
  "word_char c = (\<not> js_space c \<and> c \<noteq> dquote)"

record rmatch =
  m0 :: string
  m1 :: "string option"

fun regex_exec :: "string \<Rightarrow> (rmatch \<times> string) option" where
  "regex_exec [] = None"
| "regex_exec (c # cs) =
     (if word_char c then
        Some (\<lparr>m0 = c # takeWhile word_char cs, m1 = None\<rparr>, dropWhile word_char cs)
      else if c = dquote \<and> dquote \<in> set cs then
        Some (\<lparr>m0 = dquote # takeWhile (\<lambda>x. x \<noteq> dquote) cs @ [dquote],
               m1 = Some (takeWhile (\<lambda>x. x \<noteq> dquote) cs)\<rparr>,
              tl (dropWhile (\<lambda>x. x \<noteq> dquote) cs))
      else regex_exec cs)"

lemma regex_exec_shorter:
  "regex_exec s = Some (m, rest) \<Longrightarrow> length rest < length s"
proof (induction s)
  case Nil
  then show ?case by simp
next
  case (Cons c cs)
  have a: "length (dropWhile word_char cs) \<le> length cs"
    by (rule length_dropWhile_le)
  have b: "length (tl (dropWhile (\<lambda>x. x \<noteq> dquote) cs)) \<le> length cs"
    using length_dropWhile_le [of "\<lambda>x. x \<noteq> dquote" cs] by simp
  from Cons a b show ?case
    by (auto split: if_splits)
qed

text \<open>The loop pushes \<open>match[1] || match[0]\<close> for every match.\<close>

function tokenizeInput :: "string \<Rightarrow> string list" where
  "tokenizeInput s =
     (case regex_exec s of
        None \<Rightarrow> []
      | Some (m, rest) \<Rightarrow> or_str (m1 m) (m0 m) # tokenizeInput rest)"
  by pat_completeness auto
termination
  by (relation "measure length") (auto dest: regex_exec_shorter)

declare tokenizeInput.simps [simp del]

subsection \<open>Records built by the handlers\<close>

text \<open>
  \<open>threatLevel\<close> is only ever assigned the three literals below (the constructor,
  the tables of \<open>calculateThreatLevel\<close> and \<open>escalateThreatLevel\<close>,
  \<open>handleAlert\<close> and \<open>checkThreatLevel\<close>), so it is an enumeration.
\<close>

datatype threat_level = NORMAL | ELEVATED | CRITICAL

record investigation =
  inv_id :: string
  inv_target :: string
  inv_details :: string
  inv_status :: string
  inv_timestamp :: timestamp
  inv_findings :: "string list"

record research =
  res_id :: string
  res_subject :: string
  res_parameters :: string
  res_status :: string
  res_timestamp :: timestamp
  res_results :: "string option"

text \<open>The values stored in \<open>agentStates\<close>.\<close>

datatype operation = Investigation investigation | Research research

record engagement =
  eng_agentId :: string
  eng_threat :: string
  eng_modifiers :: string
  eng_timestamp :: timestamp
  eng_outcome :: string

record retreat =
  ret_agentId :: string
  ret_reason :: string
  ret_timestamp :: timestamp
  ret_status :: string

record containment =
  con_id :: string
  con_objectType :: string
  con_severity :: string
  con_measures :: string
  con_status :: string
  con_timestamp :: timestamp

record debrief =
  deb_agentId :: string
  deb_timestamp :: timestamp
  deb_observations :: string
  deb_mentalpStatus :: string
  deb_recordId :: string

record report =
  rep_type :: string
  rep_timestamp :: timestamp
  rep_details :: string
  rep_classification :: string
  rep_reportId :: string

record alert =
  al_id :: string
  al_threatType :: string
  al_location :: string
  al_timestamp :: timestamp
  al_status :: string

record escalation =
  esc_previousLevel :: threat_level
  esc_newLevel :: threat_level
  esc_reason :: string
  esc_timestamp :: timestamp

record sanitization =
  san_id :: string
  san_target :: string
  san_methods :: string
  san_timestamp :: timestamp
  san_status :: string

record config =
  cfg_setting :: string
  cfg_value :: string
  cfg_timestamp :: timestamp

record log_entry =
  log_timestamp :: timestamp
  log_command :: string
  log_args :: "string list"
  log_status :: string

record status_report =
  sr_timestamp :: timestamp
  sr_threatLevel :: threat_level
  sr_activeOperations :: nat
  sr_recentActions :: "log_entry list"
  sr_agentStatus :: "operation option"

text \<open>The \<open>data\<close> member of a response: one constructor per handler payload.\<close>

datatype payload =
    InvestigationData investigation
  | EngagementData engagement
  | RetreatData retreat
  | ContainmentData containment
  | ResearchData research
  | StatusData status_report
  | DebriefData debrief
  | ReportData report
  | AlertData alert
  | EscalationData escalation
  | SanitizationData sanitization
  | HelpData string
  | ConfigData config

record response =
  rsp_status :: string
  rsp_message :: string
  rsp_data :: "payload option"
  rsp_timestamp :: timestamp

subsection \<open>The processor's state\<close>

text \<open>
  \<open>agentStates\<close> is a \<open>Map\<close>: an association list with distinct keys in
  insertion order, \<open>set\<close> being \<open>AList.update\<close>, \<open>get\<close> being
  \<open>map_of\<close> and \<open>size\<close> the length. The command registry is kept apart
  from the state, since its handlers are functions on the state.
\<close>

record processor =
  agentStates :: "(string \<times> operation) list"
  actionLog :: "log_entry list"
  threatLevel :: threat_level

text \<open>What one call reads from the clock and from \<open>generateId\<close>.\<close>

record env =
  now :: timestamp
  fresh_id :: string

text \<open>A handler receives the spread arguments; it either returns a response or raises,
  and in both cases leaves a state behind.\<close>

type_synonym handler = "env \<Rightarrow> string list \<Rightarrow> processor \<Rightarrow> (js_error + response) \<times> processor"

type_synonym registry = "string \<rightharpoonup> handler"

definition constructor :: processor where
  "constructor = \<lparr>agentStates = [], actionLog = [], threatLevel = NORMAL\<rparr>"

text \<open>The parameter at position \<open>i\<close> of a call with arguments \<open>args\<close>.\<close>

definition arg :: "string list \<Rightarrow> nat \<Rightarrow> string option" where
  "arg args i = (if i < length args then Some (args ! i) else None)"

definition generateId :: "env \<Rightarrow> string" where
  "generateId e = fresh_id e"

definition formatResponse :: "env \<Rightarrow> string \<Rightarrow> string \<Rightarrow> payload option \<Rightarrow> response" where
  "formatResponse e status message data =
     \<lparr>rsp_status = status, rsp_message = message, rsp_data = data, rsp_timestamp = now e\<rparr>"

subsection \<open>Threat level helpers\<close>

definition levels :: "(string \<times> threat_level) list" where
  "levels = [(''CRITICAL'', CRITICAL), (''HIGH'', ELEVATED), (''MEDIUM'', ELEVATED),
             (''LOW'', NORMAL)]"

text \<open>\<open>levels[severity?.toUpperCase()] || 'NORMAL'\<close>: an absent severity looks up
  no key of the table.\<close>

definition calculateThreatLevel :: "string option \<Rightarrow> threat_level" where
  "calculateThreatLevel severity =
     (case severity of
        None \<Rightarrow> NORMAL
      | Some s \<Rightarrow> (case map_of levels (toUpperCase s) of Some l \<Rightarrow> l | None \<Rightarrow> NORMAL))"

fun escalation_table :: "threat_level \<Rightarrow> threat_level" where
  "escalation_table NORMAL = ELEVATED"
| "escalation_table ELEVATED = CRITICAL"
| "escalation_table CRITICAL = CRITICAL"

definition escalateThreatLevel :: "processor \<Rightarrow> threat_level \<times> processor" where
  "escalateThreatLevel p =
     (let p' = p\<lparr>threatLevel := escalation_table (threatLevel p)\<rparr>
      in (threatLevel p', p'))"

definition threatKeywords :: "string list" where
  "threatKeywords = [''ANOMALY'', ''ENTITY'', ''HOSTILE'', ''UNKNOWN'']"

definition checkThreatLevel :: "string \<Rightarrow> processor \<Rightarrow> processor" where
  "checkThreatLevel threat p =
     (if list_ex (\<lambda>keyword. str_includes (toUpperCase threat) keyword) threatKeywords
      then p\<lparr>threatLevel := ELEVATED\<rparr>
      else p)"

definition logAction :: "env \<Rightarrow> string \<Rightarrow> string list \<Rightarrow> response \<Rightarrow> processor \<Rightarrow> processor" where
  "logAction e command args result p =
     (let pushed = actionLog p @
            [\<lparr>log_timestamp = now e, log_command = command, log_args = args,
              log_status = rsp_status result\<rparr>]
      in p\<lparr>actionLog := (if length pushed > 100 then slice_last 100 pushed else pushed)\<rparr>)"

subsection \<open>The command handlers\<close>

definition handleInvestigate :: handler where
  "handleInvestigate e args p =
     (case arg args 0 of
        None \<Rightarrow> (Inr (formatResponse e ''ERROR'' ''INVESTIGATE requires a target'' None), p)
      | Some target \<Rightarrow>
          if target = [] then
            (Inr (formatResponse e ''ERROR'' ''INVESTIGATE requires a target'' None), p)
          else
            let investigation =
                  \<lparr>inv_id = generateId e, inv_target = target,
                   inv_details = join '' '' (drop 1 args), inv_status = ''ACTIVE'',
                   inv_timestamp = now e, inv_findings = []\<rparr>;
                p' = p\<lparr>agentStates :=
                        AList.update (inv_id investigation) (Investigation investigation)
                          (agentStates p)\<rparr>
            in (Inr (formatResponse e ''SUCCESS''
                       (''Investigation initiated: '' @ inv_id investigation)
                       (Some (InvestigationData investigation))), p'))"

definition handleEngage :: handler where
  "handleEngage e args p =
     (case (arg args 0, arg args 1) of
        (Some agentId, Some threat) \<Rightarrow>
          if agentId = [] \<or> threat = [] then
            (Inr (formatResponse e ''ERROR''
                    ''ENGAGE requires agent ID and threat designation'' None), p)
          else
            let engagementLog =
                  \<lparr>eng_agentId = agentId, eng_threat = threat,
                   eng_modifiers = join '' '' (drop 2 args), eng_timestamp = now e,
                   eng_outcome = ''PENDING''\<rparr>;
                p' = checkThreatLevel threat p
            in (Inr (formatResponse e ''SUCCESS'' ''Engagement directive processed''
                       (Some (EngagementData engagementLog))), p')
      | _ \<Rightarrow>
          (Inr (formatResponse e ''ERROR''
                  ''ENGAGE requires agent ID and threat designation'' None), p))"

definition handleRetreat :: handler where
  "handleRetreat e args p =
     (case arg args 0 of
        None \<Rightarrow> (Inr (formatResponse e ''ERROR'' ''RETREAT requires agent ID'' None), p)
      | Some agentId \<Rightarrow>
          if agentId = [] then
            (Inr (formatResponse e ''ERROR'' ''RETREAT requires agent ID'' None), p)
          else
            let retreatOrder =
                  \<lparr>ret_agentId = agentId,
                   ret_reason = or_str (arg args 1) ''Tactical withdrawal'',
                   ret_timestamp = now e, ret_status = ''EXECUTED''\<rparr>
            in (Inr (formatResponse e ''SUCCESS'' ''Retreat order processed''
                       (Some (RetreatData retreatOrder))), p))"

definition handleContain :: handler where
  "handleContain e args p =
     (case arg args 0 of
        None \<Rightarrow>
          (Inr (formatResponse e ''ERROR''
                  ''CONTAIN requires object type and severity level'' None), p)
      | Some objectType \<Rightarrow>
          if objectType = [] then
            (Inr (formatResponse e ''ERROR''
                    ''CONTAIN requires object type and severity level'' None), p)
          else
            let containment =
                  \<lparr>con_id = generateId e, con_objectType = objectType,
                   con_severity = or_str (arg args 1) ''UNKNOWN'',
                   con_measures = join '' '' (drop 2 args), con_status = ''INITIATED'',
                   con_timestamp = now e\<rparr>;
                p' = p\<lparr>threatLevel := calculateThreatLevel (arg args 1)\<rparr>
            in (Inr (formatResponse e ''SUCCESS'' ''Containment protocol activated''
                       (Some (ContainmentData containment))), p'))"

definition handleResearch :: handler where
  "handleResearch e args p =
     (case arg args 0 of
        None \<Rightarrow> (Inr (formatResponse e ''ERROR'' ''RESEARCH requires a subject'' None), p)
      | Some subject \<Rightarrow>
          if subject = [] then
            (Inr (formatResponse e ''ERROR'' ''RESEARCH requires a subject'' None), p)
          else
            let research =
                  \<lparr>res_id = generateId e, res_subject = subject,
                   res_parameters = join '' '' (drop 1 args), res_status = ''IN_PROGRESS'',
                   res_timestamp = now e, res_results = None\<rparr>;
                p' = p\<lparr>agentStates :=
                        AList.update (res_id research) (Research research) (agentStates p)\<rparr>
            in (Inr (formatResponse e ''SUCCESS'' ''Research directive established''
                       (Some (ResearchData research))), p'))"

definition handleStatus :: handler where
  "handleStatus e args p =
     (let statusReport =
            \<lparr>sr_timestamp = now e, sr_threatLevel = threatLevel p,
             sr_activeOperations = length (agentStates p),
             sr_recentActions = slice_last 5 (actionLog p), sr_agentStatus = None\<rparr>;
          statusReport' =
            (case arg args 0 of
               None \<Rightarrow> statusReport
             | Some agentId \<Rightarrow>
                 if agentId = [] then statusReport
                 else (case map_of (agentStates p) agentId of
                         None \<Rightarrow> statusReport
                       | Some agent \<Rightarrow> statusReport\<lparr>sr_agentStatus := Some agent\<rparr>))
      in (Inr (formatResponse e ''SUCCESS'' ''Status report generated''
                 (Some (StatusData statusReport'))), p))"

definition handleDebrief :: handler where
  "handleDebrief e args p =
     (case arg args 0 of
        None \<Rightarrow> (Inr (formatResponse e ''ERROR'' ''DEBRIEF requires agent ID'' None), p)
      | Some agentId \<Rightarrow>
          if agentId = [] then
            (Inr (formatResponse e ''ERROR'' ''DEBRIEF requires agent ID'' None), p)
          else
            let debrief =
                  \<lparr>deb_agentId = agentId, deb_timestamp = now e,
                   deb_observations = join '' '' (drop 1 args),
                   deb_mentalpStatus = ''PENDING_EVALUATION'', deb_recordId = generateId e\<rparr>
            in (Inr (formatResponse e ''SUCCESS'' ''Debrief recorded''
                       (Some (DebriefData debrief))), p))"

definition handleReport :: handler where
  "handleReport e args p =
     (let report =
            \<lparr>rep_type = or_str (arg args 0) ''GENERAL'', rep_timestamp = now e,
             rep_details = join '' '' (drop 1 args), rep_classification = ''DELTA_GREEN'',
             rep_reportId = generateId e\<rparr>
      in (Inr (formatResponse e ''SUCCESS'' ''Report generated'' (Some (ReportData report))), p))"

definition handleAlert :: handler where
  "handleAlert e args p =
     (case arg args 0 of
        None \<Rightarrow> (Inr (formatResponse e ''ERROR'' ''ALERT requires threat type'' None), p)
      | Some threatType \<Rightarrow>
          if threatType = [] then
            (Inr (formatResponse e ''ERROR'' ''ALERT requires threat type'' None), p)
          else
            let alert =
                  \<lparr>al_id = generateId e, al_threatType = threatType,
                   al_location = or_str (arg args 1) ''UNKNOWN'', al_timestamp = now e,
                   al_status = ''ISSUED''\<rparr>;
                p' = p\<lparr>threatLevel := ELEVATED\<rparr>
            in (Inr (formatResponse e ''SUCCESS'' ''Alert issued to network''
                       (Some (AlertData alert))), p'))"

text \<open>The object literal reads \<open>this.threatLevel\<close> before it calls
  \<open>escalateThreatLevel\<close>.\<close>

definition handleEscalate :: handler where
  "handleEscalate e args p =
     (let previousLevel = threatLevel p;
          (newLevel, p') = escalateThreatLevel p;
          escalation =
            \<lparr>esc_previousLevel = previousLevel, esc_newLevel = newLevel,
             esc_reason = or_str (arg args 0) ''Unspecified'', esc_timestamp = now e\<rparr>
      in (Inr (formatResponse e ''SUCCESS'' ''Threat level escalated''
                 (Some (EscalationData escalation))), p'))"

definition handleSanitize :: handler where
  "handleSanitize e args p =
     (case arg args 0 of
        None \<Rightarrow> (Inr (formatResponse e ''ERROR'' ''SANITIZE requires a target'' None), p)
      | Some target \<Rightarrow>
          if target = [] then
            (Inr (formatResponse e ''ERROR'' ''SANITIZE requires a target'' None), p)
          else
            let sanitization =
                  \<lparr>san_id = generateId e, san_target = target,
                   san_methods = join '' '' (drop 1 args), san_timestamp = now e,
                   san_status = ''PROCESSING''\<rparr>
            in (Inr (formatResponse e ''SUCCESS'' ''Sanitization operation initiated''
                       (Some (SanitizationData sanitization))), p))"

definition help_commands :: "(string \<times> string) list" where
  "help_commands =
     [(''INVESTIGATE'', ''INVESTIGATE <target> [details...] - Initiate investigation directive''),
      (''ENGAGE'', ''ENGAGE <agentId> <threat> [modifiers...] - Execute direct engagement''),
      (''RETREAT'', ''RETREAT <agentId> [reason] - Order tactical withdrawal''),
      (''CONTAIN'', ''CONTAIN <objectType> <severity> [measures...] - Activate containment''),
      (''RESEARCH'', ''RESEARCH <subject> [parameters...] - Conduct research operation''),
      (''STATUS'', ''STATUS [agentId] - Get operational status''),
      (''DEBRIEF'', ''DEBRIEF <agentId> [observations...] - Record agent debrief''),
      (''REPORT'', ''REPORT [type] [details...] - Generate operational report''),
      (''ALERT'', ''ALERT <threatType> [location] - Issue threat alert''),
      (''ESCALATE'', ''ESCALATE [reason] - Escalate threat level''),
      (''SANITIZE'', ''SANITIZE <target> [methods...] - Initiate sanitization''),
      (''HELP'', ''HELP [command] - Display help information''),
      (''CONFIG'', ''CONFIG <setting> [value...] - Manage configuration'')]"

definition generateHelpText :: "string option \<Rightarrow> string" where
  "generateHelpText command =
     (case command of
        None \<Rightarrow> join [CHR 0x0A] (map snd help_commands)
      | Some c \<Rightarrow>
          if c = [] then join [CHR 0x0A] (map snd help_commands)
          else (case map_of help_commands (toUpperCase c) of
                  Some h \<Rightarrow> h
                | None \<Rightarrow> ''Command not found''))"

definition handleHelp :: handler where
  "handleHelp e args p =
     (let helpText = generateHelpText (arg args 0)
      in (Inr (formatResponse e ''SUCCESS'' ''Help information'' (Some (HelpData helpText))), p))"

definition handleConfig :: handler where
  "handleConfig e args p =
     (case arg args 0 of
        None \<Rightarrow> (Inr (formatResponse e ''ERROR'' ''CONFIG requires a setting name'' None), p)
      | Some setting \<Rightarrow>
          if setting = [] then
            (Inr (formatResponse e ''ERROR'' ''CONFIG requires a setting name'' None), p)
          else
            let config =
                  \<lparr>cfg_setting = setting, cfg_value = join '' '' (drop 1 args),
                   cfg_timestamp = now e\<rparr>
            in (Inr (formatResponse e ''SUCCESS'' ''Configuration updated''
                       (Some (ConfigData config))), p))"

subsection \<open>Registry and dispatch\<close>

definition registerCommand :: "string \<Rightarrow> handler \<Rightarrow> registry \<Rightarrow> registry" where
  "registerCommand command h reg = reg(toUpperCase command \<mapsto> h)"

definition initializeCommands :: registry where
  "initializeCommands =
     (registerCommand ''CONFIG'' handleConfig
     (registerCommand ''HELP'' handleHelp
     (registerCommand ''SANITIZE'' handleSanitize
     (registerCommand ''ESCALATE'' handleEscalate
     (registerCommand ''ALERT'' handleAlert
     (registerCommand ''REPORT'' handleReport
     (registerCommand ''DEBRIEF'' handleDebrief
     (registerCommand ''STATUS'' handleStatus
     (registerCommand ''RESEARCH'' handleResearch
     (registerCommand ''CONTAIN'' handleContain
     (registerCommand ''RETREAT'' handleRetreat
     (registerCommand ''ENGAGE'' handleEngage
     (registerCommand ''INVESTIGATE'' handleInvestigate Map.empty)))))))))))))"

text \<open>
  \<open>processCommand\<close>. The result is \<open>Inl\<close> when the call itself raises: reading
  \<open>tokens[0].toUpperCase()\<close> stands before the \<open>try\<close> block, and with no token
  \<open>tokens[0]\<close> is \<open>undefined\<close>. Inside the \<open>try\<close> block a handler that
  raises is answered by the \<open>catch\<close> clause, which does not call \<open>logAction\<close>.
\<close>

definition processCommand ::
  "registry \<Rightarrow> env \<Rightarrow> string \<Rightarrow> processor \<Rightarrow> (js_error + response) \<times> processor" where
  "processCommand reg e input p =
     (let trimmedInput = trim input in
      if trimmedInput = [] then (Inr (formatResponse e ''ERROR'' ''No command provided'' None), p)
      else
        (case tokenizeInput trimmedInput of
           [] \<Rightarrow>
             (Inl (TypeError ''Cannot read properties of undefined (reading toUpperCase)''), p)
         | t # args \<Rightarrow>
             let command = toUpperCase t in
             (case reg command of
                None \<Rightarrow>
                  (Inr (formatResponse e ''ERROR'' (''Unknown command: '' @ command) None), p)
              | Some h \<Rightarrow>
                  (case h e args p of
                     (Inr result, p1) \<Rightarrow> (Inr result, logAction e command args result p1)
                   | (Inl err, p1) \<Rightarrow>
                       (Inr (formatResponse e ''ERROR''
                               (''Command execution failed: '' @ error_message err) None),
                        p1)))))"

section \<open>The context manager (DAS-Delta-Green-Context-Script.js)\<close>

subsection \<open>Stored objects\<close>

text \<open>
  The fields of an agent, a team and a threat that hold numbers, strings and time stamps
  are modelled. Their array- and object-valued fields (skills, cover, equipment,
  connections, attributes and the like) are only ever copied by the operations below and
  are left out. A team's members are kept as the keys of the agent objects it refers to.
\<close>

record agent =
  ag_id :: string
  ag_name :: string
  ag_role :: string
  ag_callsign :: string
  ag_sanity :: int
  ag_maxSanity :: int
  ag_status :: string
  ag_notes :: string
  ag_joinedCampaign :: timestamp
  ag_lastAction :: "timestamp option"
  ag_stressLevel :: int

record history_entry =
  h_timestamp :: timestamp
  h_delta :: int
  h_previous :: int
  h_current :: int
  h_reason :: string

record breakpoint =
  bp_timestamp :: timestamp
  bp_type :: string

record tracker =
  tr_current :: int
  tr_max :: int
  tr_history :: "history_entry list"
  tr_breakpoints :: "breakpoint list"

record team =
  tm_id :: string
  tm_name :: string
  tm_members :: "string list"
  tm_objective :: string
  tm_morale :: int
  tm_cohesion :: int
  tm_casualtyCount :: int
  tm_missionHistory :: "string list"
  tm_formed :: timestamp
  tm_status :: string
  tm_tactics :: string

record threat =
  th_id :: string
  th_name :: string
  th_type :: string
  th_threatLevel :: int
  th_classification :: string
  th_discovered :: timestamp
  th_lastSeen :: timestamp
  th_status :: string
  th_containment_status :: string
  th_response_team :: "string option"

text \<open>The \<open>Map\<close>s of the manager that the operations below read or write, as
  association lists in insertion order. The missions, the narrative lists, the world state
  and the archives are not touched by these operations, except that \<open>resetCampaign\<close>
  empties them, and are left out.\<close>

record manager =
  agents :: "(string \<times> agent) list"
  teams :: "(string \<times> team) list"
  threats :: "(string \<times> threat) list"
  sanityTracker :: "(string \<times> tracker) list"

text \<open>The state the constructor leaves when it is given no initial roster.\<close>

definition new_manager :: manager where
  "new_manager = \<lparr>agents = [], teams = [], threats = [], sanityTracker = []\<rparr>"

subsection \<open>Arguments of the operations\<close>

record agent_input =
  in_id :: "string option"
  in_name :: "string option"
  in_role :: "string option"
  in_callsign :: "string option"
  in_sanity :: "int option"
  in_maxSanity :: "int option"
  in_status :: "string option"
  in_notes :: "string option"

text \<open>
  One key of a status update with its value, in the order \<open>Object.keys\<close> lists
  them. \<open>UOther\<close> is a key that is no own property of the agent, or one of the
  fields left out of \<^typ>\<open>agent\<close>.
\<close>

datatype update_entry =
    USanity int
  | UStatus string
  | UStressLevel int
  | UId string
  | UName string
  | URole string
  | UCallsign string
  | UMaxSanity int
  | UNotes string
  | UJoinedCampaign timestamp
  | ULastAction timestamp
  | UOther string

record team_input =
  ti_id :: "string option"
  ti_name :: "string option"
  ti_memberIds :: "string list option"
  ti_objective :: "string option"
  ti_morale :: "int option"
  ti_cohesion :: "int option"
  ti_tactics :: "string option"

record dynamics =
  dy_morale :: "int option"
  dy_cohesion :: "int option"
  dy_casualty :: "int option"
  dy_tactics :: "string option"

record dynamics_result =
  dr_teamId :: string
  dr_morale :: int
  dr_cohesion :: int
  dr_casualties :: int
  dr_status :: string

record threat_input =
  thi_name :: "string option"
  thi_type :: "string option"
  thi_threat_level :: "int option"
  thi_classification :: "string option"
  thi_containment_status :: "string option"

record reset_config =
  rc_preserveAgents :: bool
  rc_preserveTeams :: bool

subsection \<open>Numbers in template strings\<close>

definition digit_char :: "nat \<Rightarrow> char" where
  "digit_char d = ''0123456789'' ! (d mod 10)"

fun show_nat :: "nat \<Rightarrow> string" where
  "show_nat n = (if n < 10 then [digit_char n] else show_nat (n div 10) @ [digit_char n])"

declare show_nat.simps [simp del]

subsection \<open>Agents and sanity\<close>

text \<open>\<open>callsign\<close> is what \<open>generateCallsign\<close> would draw; it is used only
  when the input names none.\<close>

definition registerAgent ::
  "timestamp \<Rightarrow> string \<Rightarrow> agent_input \<Rightarrow> manager \<Rightarrow> agent \<times> manager" where
  "registerAgent ts callsign a s =
     (let agentData =
            \<lparr>ag_id = or_str (in_id a) (''AGENT-'' @ show_nat (length (agents s) + 1)),
             ag_name = or_str (in_name a) ''Unknown Agent'',
             ag_role = or_str (in_role a) ''Operative'',
             ag_callsign = or_str (in_callsign a) callsign,
             ag_sanity = or_num (in_sanity a) 60,
             ag_maxSanity = or_num (in_maxSanity a) 60,
             ag_status = or_str (in_status a) ''active'',
             ag_notes = or_str (in_notes a) [],
             ag_joinedCampaign = ts,
             ag_lastAction = None,
             ag_stressLevel = 0\<rparr>;
          s1 = s\<lparr>agents := AList.update (ag_id agentData) agentData (agents s)\<rparr>;
          s2 = s1\<lparr>sanityTracker :=
                  AList.update (ag_id agentData)
                    \<lparr>tr_current = ag_sanity agentData, tr_max = ag_maxSanity agentData,
                     tr_history = [], tr_breakpoints = []\<rparr>
                    (sanityTracker s1)\<rparr>
      in (agentData, s2))"

text \<open>
  \<open>modifySanity\<close>. The tracker and the agent are objects held by the two maps, so
  the assignments to them are updates at the key. The threshold test is the source's
  \<open>tracker.current < tracker.max * 0.25\<close>, read over the reals.
\<close>

definition modifySanity ::
  "timestamp \<Rightarrow> string \<Rightarrow> int \<Rightarrow> manager \<Rightarrow> (js_error + tracker) \<times> manager" where
  "modifySanity ts agentId delta s =
     (case (map_of (sanityTracker s) agentId, map_of (agents s) agentId) of
        (Some tracker, Some agent) \<Rightarrow>
          let previousSanity = tr_current tracker;
              tracker1 = tracker\<lparr>tr_current :=
                           max 0 (min (tr_max tracker) (tr_current tracker + delta))\<rparr>;
              tracker2 = tracker1\<lparr>tr_history := tr_history tracker1 @
                           [\<lparr>h_timestamp = ts, h_delta = delta, h_previous = previousSanity,
                             h_current = tr_current tracker1, h_reason = []\<rparr>]\<rparr>;
              (tracker3, agent1) =
                (if tr_current tracker2 = 0 then
                   (tracker2\<lparr>tr_breakpoints := tr_breakpoints tracker2 @
                        [\<lparr>bp_timestamp = ts, bp_type = ''complete_break''\<rparr>]\<rparr>,
                    agent\<lparr>ag_status := ''incapacitated''\<rparr>)
                 else if real_of_int (tr_current tracker2) < real_of_int (tr_max tracker2) * 0.25
                 then
                   (tracker2\<lparr>tr_breakpoints := tr_breakpoints tracker2 @
                        [\<lparr>bp_timestamp = ts, bp_type = ''critical''\<rparr>]\<rparr>,
                    agent)
                 else (tracker2, agent));
              agent2 = agent1\<lparr>ag_sanity := tr_current tracker3\<rparr>
          in (Inr tracker3,
              s\<lparr>agents := AList.update agentId agent2 (agents s),
                sanityTracker := AList.update agentId tracker3 (sanityTracker s)\<rparr>)
      | _ \<Rightarrow> (Inl (Error (''Unable to modify sanity for agent '' @ agentId)), s))"

text \<open>An assignment to a field of the agent object stored under a key.\<close>

definition assign_agent :: "string \<Rightarrow> (agent \<Rightarrow> agent) \<Rightarrow> manager \<Rightarrow> manager" where
  "assign_agent agentId f s =
     (case map_of (agents s) agentId of
        None \<Rightarrow> s
      | Some a \<Rightarrow> s\<lparr>agents := AList.update agentId (f a) (agents s)\<rparr>)"

text \<open>The body of the \<open>forEach\<close> over the keys of the update; an exception of
  \<open>modifySanity\<close> ends the loop and keeps what the earlier keys assigned.\<close>

fun apply_updates ::
  "timestamp \<Rightarrow> string \<Rightarrow> update_entry list \<Rightarrow> manager \<Rightarrow> (js_error + unit) \<times> manager" where
  "apply_updates ts agentId [] s = (Inr (), s)"
| "apply_updates ts agentId (USanity d # us) s =
     (case modifySanity ts agentId d s of
        (Inl err, s') \<Rightarrow> (Inl err, s')
      | (Inr _, s') \<Rightarrow> apply_updates ts agentId us s')"
| "apply_updates ts agentId (UStatus v # us) s =
     apply_updates ts agentId us (assign_agent agentId (\<lambda>a. a\<lparr>ag_status := v\<rparr>) s)"
| "apply_updates ts agentId (UStressLevel v # us) s =
     apply_updates ts agentId us
       (assign_agent agentId (\<lambda>a. a\<lparr>ag_stressLevel := max 0 (min 100 v)\<rparr>) s)"
| "apply_updates ts agentId (UId v # us) s =
     apply_updates ts agentId us (assign_agent agentId (\<lambda>a. a\<lparr>ag_id := v\<rparr>) s)"
| "apply_updates ts agentId (UName v # us) s =
     apply_updates ts agentId us (assign_agent agentId (\<lambda>a. a\<lparr>ag_name := v\<rparr>) s)"
| "apply_updates ts agentId (URole v # us) s =
     apply_updates ts agentId us (assign_agent agentId (\<lambda>a. a\<lparr>ag_role := v\<rparr>) s)"
| "apply_updates ts agentId (UCallsign v # us) s =
     apply_updates ts agentId us (assign_agent agentId (\<lambda>a. a\<lparr>ag_callsign := v\<rparr>) s)"
| "apply_updates ts agentId (UMaxSanity v # us) s =
     apply_updates ts agentId us (assign_agent agentId (\<lambda>a. a\<lparr>ag_maxSanity := v\<rparr>) s)"
| "apply_updates ts agentId (UNotes v # us) s =
     apply_updates ts agentId us (assign_agent agentId (\<lambda>a. a\<lparr>ag_notes := v\<rparr>) s)"
| "apply_updates ts agentId (UJoinedCampaign v # us) s =
     apply_updates ts agentId us (assign_agent agentId (\<lambda>a. a\<lparr>ag_joinedCampaign := v\<rparr>) s)"
| "apply_updates ts agentId (ULastAction v # us) s =
     apply_updates ts agentId us (assign_agent agentId (\<lambda>a. a\<lparr>ag_lastAction := Some v\<rparr>) s)"
| "apply_updates ts agentId (UOther k # us) s = apply_updates ts agentId us s"

text \<open>\<open>updateAgentStatus\<close> returns the agent object it fetched at the start, which
  is the one still stored under the key when the loop has ended.\<close>

definition updateAgentStatus ::
  "timestamp \<Rightarrow> string \<Rightarrow> update_entry list \<Rightarrow> manager \<Rightarrow> (js_error + agent) \<times> manager" where
  "updateAgentStatus ts agentId statusUpdate s =
     (case map_of (agents s) agentId of
        None \<Rightarrow> (Inl (Error (''Agent '' @ agentId @ '' not found in registry'')), s)
      | Some _ \<Rightarrow>
          (case apply_updates ts agentId statusUpdate s of
             (Inl err, s1) \<Rightarrow> (Inl err, s1)
           | (Inr _, s1) \<Rightarrow>
               let s2 = assign_agent agentId (\<lambda>a. a\<lparr>ag_lastAction := Some ts\<rparr>) s1
               in (case map_of (agents s2) agentId of
                     None \<Rightarrow> (Inl (Error (''Agent '' @ agentId @ '' not found in registry'')), s2)
                   | Some a \<Rightarrow> (Inr a, s2))))"

subsection \<open>Teams\<close>

definition createTeam :: "timestamp \<Rightarrow> team_input \<Rightarrow> manager \<Rightarrow> team \<times> manager" where
  "createTeam ts t s =
     (let teamData =
            \<lparr>tm_id = or_str (ti_id t) (''TEAM-'' @ show_nat (length (teams s) + 1)),
             tm_name = or_str (ti_name t) ''Unnamed Team'',
             tm_members =
               (case ti_memberIds t of
                  None \<Rightarrow> []
                | Some ids \<Rightarrow> filter (\<lambda>i. map_of (agents s) i \<noteq> None) ids),
             tm_objective = or_str (ti_objective t) [],
             tm_morale = or_num (ti_morale t) 75,
             tm_cohesion = or_num (ti_cohesion t) 80,
             tm_casualtyCount = 0,
             tm_missionHistory = [],
             tm_formed = ts,
             tm_status = ''active'',
             tm_tactics = or_str (ti_tactics t) ''adaptive''\<rparr>
      in (teamData, s\<lparr>teams := AList.update (tm_id teamData) teamData (teams s)\<rparr>))"

text \<open>The five conditional assignments of \<open>manageTeamDynamics\<close> to the team
  object, one per \<open>let\<close>. \<open>dynamics.morale !== undefined\<close> holds for every
  supplied number, zero included; \<open>if (dynamics.casualty)\<close> holds for every supplied
  number but zero.\<close>

definition adjust_team :: "dynamics \<Rightarrow> team \<Rightarrow> team" where
  "adjust_team d team =
     (let team1 = (case dy_morale d of
                     None \<Rightarrow> team
                   | Some m \<Rightarrow> team\<lparr>tm_morale := max 0 (min 100 m)\<rparr>);
          team2 = (case dy_cohesion d of
                     None \<Rightarrow> team1
                   | Some c \<Rightarrow> team1\<lparr>tm_cohesion := max 0 (min 100 c)\<rparr>);
          team3 = (case dy_casualty d of
                     None \<Rightarrow> team2
                   | Some k \<Rightarrow>
                       if k \<noteq> 0 then team2\<lparr>tm_casualtyCount := tm_casualtyCount team2 + k\<rparr>
                       else team2);
          team4 = (case dy_tactics d of
                     None \<Rightarrow> team3
                   | Some v \<Rightarrow> if v \<noteq> [] then team3\<lparr>tm_tactics := v\<rparr> else team3)
      in if tm_casualtyCount team4 > 0 then
           let moralePenalty = min 30 (tm_casualtyCount team4 * 5)
           in team4\<lparr>tm_morale := max 0 (tm_morale team4 - moralePenalty)\<rparr>
         else team4)"

definition manageTeamDynamics ::
  "string \<Rightarrow> dynamics \<Rightarrow> manager \<Rightarrow> (js_error + dynamics_result) \<times> manager" where
  "manageTeamDynamics teamId d s =
     (case map_of (teams s) teamId of
        None \<Rightarrow> (Inl (Error (''Team '' @ teamId @ '' not found'')), s)
      | Some team \<Rightarrow>
          let team' = adjust_team d team
          in (Inr \<lparr>dr_teamId = tm_id team', dr_morale = tm_morale team',
                   dr_cohesion = tm_cohesion team', dr_casualties = tm_casualtyCount team',
                   dr_status = (if tm_morale team' > 50 then ''operational''
                                else ''compromised'')\<rparr>,
              s\<lparr>teams := AList.update teamId team' (teams s)\<rparr>))"

subsection \<open>Threats\<close>

definition createThreatAssessment ::
  "timestamp \<Rightarrow> threat_input \<Rightarrow> manager \<Rightarrow> threat \<times> manager" where
  "createThreatAssessment ts t s =
     (let threatData =
            \<lparr>th_id = ''THREAT-'' @ show_nat (length (threats s) + 1),
             th_name = or_str (thi_name t) ''Unknown Threat'',
             th_type = or_str (thi_type t) ''anomalous'',
             th_threatLevel = max 1 (min 10 (or_num (thi_threat_level t) 5)),
             th_classification = or_str (thi_classification t) ''DELTA GREEN'',
             th_discovered = ts,
             th_lastSeen = ts,
             th_status = ''active'',
             th_containment_status = or_str (thi_containment_status t) ''uncontained'',
             th_response_team = None\<rparr>
      in (threatData, s\<lparr>threats := AList.update (th_id threatData) threatData (threats s)\<rparr>))"

subsection \<open>Reset\<close>

definition resetCampaign :: "reset_config \<Rightarrow> manager \<Rightarrow> manager" where
  "resetCampaign c s =
     (let s1 = (if \<not> rc_preserveAgents c then s\<lparr>agents := [], sanityTracker := []\<rparr> else s);
          s2 = (if \<not> rc_preserveTeams c then s1\<lparr>teams := []\<rparr> else s1)
      in s2\<lparr>threats := []\<rparr>)"

section \<open>Sequences of calls and the vocabulary of the specification\<close>

subsection \<open>Dispatching several commands\<close>

text \<open>The state after a list of commands, each with what it reads from its environment.
  A call that raises leaves the state it has reached.\<close>

fun run_commands :: "registry \<Rightarrow> (env \<times> string) list \<Rightarrow> processor \<Rightarrow> processor" where
  "run_commands reg [] p = p"
| "run_commands reg ((e, input) # rest) p =
     run_commands reg rest (snd (processCommand reg e input p))"

text \<open>
  The audit entry of a dispatch, in the specification's words: an entry
  \<open>{timestamp, command, args, status}\<close> exists exactly when the input has a first
  token, the token names a registered handler and the handler returns a response.
\<close>

definition logged_entry :: "registry \<Rightarrow> env \<Rightarrow> string \<Rightarrow> processor \<Rightarrow> log_entry option" where
  "logged_entry reg e input p =
     (case tokenizeInput (trim input) of
        [] \<Rightarrow> None
      | t # args \<Rightarrow>
          (case reg (toUpperCase t) of
             None \<Rightarrow> None
           | Some h \<Rightarrow>
               (case fst (h e args p) of
                  Inl err \<Rightarrow> None
                | Inr r \<Rightarrow>
                    Some \<lparr>log_timestamp = now e, log_command = toUpperCase t, log_args = args,
                          log_status = rsp_status r\<rparr>)))"

text \<open>The entries the dispatches of a list of commands append, oldest first, and
  whether every dispatch of the list appends one.\<close>

fun run_entries :: "registry \<Rightarrow> (env \<times> string) list \<Rightarrow> processor \<Rightarrow> log_entry list" where
  "run_entries reg [] p = []"
| "run_entries reg ((e, input) # rest) p =
     (case logged_entry reg e input p of None \<Rightarrow> [] | Some en \<Rightarrow> [en])
       @ run_entries reg rest (snd (processCommand reg e input p))"

fun all_logged :: "registry \<Rightarrow> (env \<times> string) list \<Rightarrow> processor \<Rightarrow> bool" where
  "all_logged reg [] p = True"
| "all_logged reg ((e, input) # rest) p =
     (logged_entry reg e input p \<noteq> None
      \<and> all_logged reg rest (snd (processCommand reg e input p)))"

text \<open>A registry whose handlers do not write the audit log themselves.\<close>

definition handlers_keep_log :: "registry \<Rightarrow> bool" where
  "handlers_keep_log reg =
     (\<forall>c h e args p. reg c = Some h \<longrightarrow> actionLog (snd (h e args p)) = actionLog p)"

text \<open>A handler that raises, as \<open>registerCommand\<close> accepts one from its caller.\<close>

definition raising_handler :: handler where
  "raising_handler e args p = (Inl (Error ''boom''), p)"

text \<open>The leading arguments each handler tests before it does anything else: the
  \<open>Required\<close> column of the command table.\<close>

definition required_args :: "(string \<times> nat) list" where
  "required_args =
     [(''INVESTIGATE'', 1), (''ENGAGE'', 2), (''RETREAT'', 1), (''CONTAIN'', 1),
      (''RESEARCH'', 1), (''DEBRIEF'', 1), (''ALERT'', 1), (''SANITIZE'', 1), (''CONFIG'', 1)]"

subsection \<open>Calls of the context manager\<close>

text \<open>The interval the specification states for a tracker.\<close>

definition sanity_in_range :: "tracker \<Rightarrow> bool" where
  "sanity_in_range t = (0 \<le> tr_current t \<and> tr_current t \<le> tr_max t)"

fun manage_all :: "string \<Rightarrow> dynamics list \<Rightarrow> manager \<Rightarrow> manager" where
  "manage_all teamId [] s = s"
| "manage_all teamId (d # ds) s = manage_all teamId ds (snd (manageTeamDynamics teamId d s))"

text \<open>A casualty delta that is absent or not negative.\<close>

definition nonneg_casualty :: "dynamics \<Rightarrow> bool" where
  "nonneg_casualty d = (case dy_casualty d of None \<Rightarrow> True | Some k \<Rightarrow> 0 \<le> k)"

datatype call =
    RegisterAgent string agent_input
  | UpdateAgentStatus string "update_entry list"
  | ModifySanity string int
  | CreateTeam team_input
  | ManageTeamDynamics string dynamics
  | CreateThreatAssessment threat_input
  | ResetCampaign reset_config

text \<open>The state a call leaves, whether it returns or raises. The methods that are not
  listed (\<open>buildContext\<close>, \<open>generateMissionBriefing\<close>,
  \<open>injectNarrative\<close>, the getters, the export and the summary) assign to none of
  the four maps.\<close>

fun perform :: "timestamp \<Rightarrow> call \<Rightarrow> manager \<Rightarrow> manager" where
  "perform ts (RegisterAgent callsign a) s = snd (registerAgent ts callsign a s)"
| "perform ts (UpdateAgentStatus agentId us) s = snd (updateAgentStatus ts agentId us s)"
| "perform ts (ModifySanity agentId delta) s = snd (modifySanity ts agentId delta s)"
| "perform ts (CreateTeam t) s = snd (createTeam ts t s)"
| "perform ts (ManageTeamDynamics teamId d) s = snd (manageTeamDynamics teamId d s)"
| "perform ts (CreateThreatAssessment t) s = snd (createThreatAssessment ts t s)"
| "perform ts (ResetCampaign c) s = resetCampaign c s"

text \<open>The two calls that put a new tracker under a key or drop the trackers:
  \<open>registerAgent\<close> for the key it stores under, and \<open>resetCampaign\<close> unless the
  agents are preserved.\<close>

fun replaces_tracker :: "string \<Rightarrow> call \<Rightarrow> manager \<Rightarrow> bool" where
  "replaces_tracker agentId (RegisterAgent callsign a) s =
     (or_str (in_id a) (''AGENT-'' @ show_nat (length (agents s) + 1)) = agentId)"
| "replaces_tracker agentId (ResetCampaign c) s = (\<not> rc_preserveAgents c)"
| "replaces_tracker agentId c s = False"

section \<open>Properties of the input processor\<close>

subsection \<open>The registry\<close>

lemma initializeCommands_table:
  "initializeCommands = map_of
    [(''INVESTIGATE'', handleInvestigate), (''ENGAGE'', handleEngage),
     (''RETREAT'', handleRetreat), (''CONTAIN'', handleContain),
     (''RESEARCH'', handleResearch), (''STATUS'', handleStatus),
     (''DEBRIEF'', handleDebrief), (''REPORT'', handleReport), (''ALERT'', handleAlert),
     (''ESCALATE'', handleEscalate), (''SANITIZE'', handleSanitize), (''HELP'', handleHelp),
     (''CONFIG'', handleConfig)]"
  by (rule ext)
    (simp add: initializeCommands_def registerCommand_def toUpperCase_def upper_char_def)

subsection \<open>Threat escalation\<close>

text \<open>
  C2. \<open>escalateThreatLevel\<close> moves the threat level exactly one step up and stays at
  CRITICAL: from NORMAL it stores and returns ELEVATED, from ELEVATED it stores and returns
  CRITICAL, from CRITICAL it stores and returns CRITICAL. Three escalations from NORMAL
  end in CRITICAL, as one escalation from CRITICAL does, and the ESCALATE handler changes
  the state by exactly this step.
\<close>

theorem escalateThreatLevel_one_step:
  "escalateThreatLevel (p\<lparr>threatLevel := NORMAL\<rparr>) = (ELEVATED, p\<lparr>threatLevel := ELEVATED\<rparr>)
   \<and> escalateThreatLevel (p\<lparr>threatLevel := ELEVATED\<rparr>) = (CRITICAL, p\<lparr>threatLevel := CRITICAL\<rparr>)
   \<and> escalateThreatLevel (p\<lparr>threatLevel := CRITICAL\<rparr>) = (CRITICAL, p\<lparr>threatLevel := CRITICAL\<rparr>)
   \<and> fst (escalateThreatLevel (snd (escalateThreatLevel (snd (escalateThreatLevel
         (p\<lparr>threatLevel := NORMAL\<rparr>)))))) = CRITICAL
   \<and> fst (escalateThreatLevel (p\<lparr>threatLevel := CRITICAL\<rparr>)) = CRITICAL
   \<and> snd (handleEscalate e args p) = snd (escalateThreatLevel p)"
  by (simp add: escalateThreatLevel_def handleEscalate_def Let_def)

theorem escalateThreatLevel_one_step_witness:
  "fst (escalateThreatLevel (snd (escalateThreatLevel (snd (escalateThreatLevel constructor)))))
     = CRITICAL
   \<and> threatLevel (snd (handleEscalate \<lparr>now = ''t'', fresh_id = ''i''\<rparr> [] constructor)) = ELEVATED"
proof -
  have c: "constructor\<lparr>threatLevel := NORMAL\<rparr> = constructor"
    by (simp add: constructor_def)
  show ?thesis
    using escalateThreatLevel_one_step [of constructor "\<lparr>now = ''t'', fresh_id = ''i''\<rparr>" "[]"]
    by (simp add: c)
qed

subsection \<open>Tokenization\<close>

lemma tokenizeInput_Nil: "tokenizeInput [] = []"
  by (subst tokenizeInput.simps) simp

lemma tokenizeInput_example:
  "tokenizeInput (''ENGAGE A1 '' @ [dquote] @ ''giant squid'' @ [dquote] @ '' loud'')
     = [''ENGAGE'', ''A1'', ''giant squid'', ''loud'']"
  by code_simp

lemma regex_exec_token:
  "regex_exec s = Some (m, rest) \<Longrightarrow>
   or_str (m1 m) (m0 m) \<noteq> []
   \<and> (dquote \<in> set (or_str (m1 m) (m0 m)) \<longrightarrow> or_str (m1 m) (m0 m) = [dquote, dquote])"
proof (induction s)
  case Nil
  then show ?case by simp
next
  case (Cons c cs)
  have w: "dquote \<notin> set (takeWhile word_char cs)"
    using set_takeWhileD [of dquote word_char cs] by (auto simp: word_char_def)
  have q: "dquote \<notin> set (takeWhile (\<lambda>x. x \<noteq> dquote) cs)"
    using set_takeWhileD [of dquote "\<lambda>x. x \<noteq> dquote" cs] by auto
  from Cons w q show ?case
    by (auto simp: word_char_def split: if_splits)
qed

lemma tokenizeInput_tokens:
  "tok \<in> set (tokenizeInput s) \<Longrightarrow>
   tok \<noteq> [] \<and> (dquote \<in> set tok \<longrightarrow> tok = [dquote, dquote])"
proof (induction s rule: tokenizeInput.induct)
  case (1 s)
  show ?case
  proof (cases "regex_exec s")
    case None
    with "1.prems" show ?thesis
      by (simp add: tokenizeInput.simps [of s])
  next
    case (Some mr)
    obtain m rest where mr: "mr = (m, rest)"
      by (cases mr)
    from "1.prems" Some mr consider "tok = or_str (m1 m) (m0 m)" | "tok \<in> set (tokenizeInput rest)"
      by (auto simp: tokenizeInput.simps [of s])
    then show ?thesis
    proof cases
      case 1
      with regex_exec_token [of s m rest] Some mr show ?thesis
        by simp
    next
      case 2
      show ?thesis
        by (rule "1.IH" [OF Some mr [symmetric] 2])
    qed
  qed
qed

text \<open>
  C3. A double-quoted run is meant to become one token without its quotes. For the empty
  run the capture group is the empty string, \<open>match[1] || match[0]\<close> falls through to
  the whole match, and the token pushed is the two quote characters themselves: the input
  \<open>CONFIG ""\<close> yields the tokens \<open>CONFIG\<close> and \<open>""\<close>.
\<close>

theorem tokenizeInput_empty_quoted_run:
  "tokenizeInput (''CONFIG '' @ [dquote, dquote]) = [''CONFIG'', [dquote, dquote]]"
  by code_simp

subsection \<open>Dispatch\<close>

lemma processCommand_returned:
  assumes "tokenizeInput (trim input) = t # args" and "reg (toUpperCase t) = Some h"
    and "h e args p = (Inr r, p1)"
  shows "processCommand reg e input p = (Inr r, logAction e (toUpperCase t) args r p1)"
proof -
  from assms(1) have "trim input \<noteq> []"
    using tokenizeInput_Nil by auto
  with assms show ?thesis
    by (simp add: processCommand_def Let_def)
qed

lemma processCommand_raised:
  assumes "tokenizeInput (trim input) = t # args" and "reg (toUpperCase t) = Some h"
    and "h e args p = (Inl err, p1)"
  shows "processCommand reg e input p
           = (Inr (formatResponse e ''ERROR''
                     (''Command execution failed: '' @ error_message err) None), p1)"
proof -
  from assms(1) have "trim input \<noteq> []"
    using tokenizeInput_Nil by auto
  with assms show ?thesis
    by (simp add: processCommand_def Let_def)
qed

lemma builtin_handlers_return:
  assumes "initializeCommands c = Some h"
  shows "\<exists>r p'. h e args p = (Inr r, p') \<and> (rsp_status r = ''SUCCESS'' \<or> rsp_status r = ''ERROR'')"
proof -
  from assms consider
      "h = handleInvestigate" | "h = handleEngage" | "h = handleRetreat" | "h = handleContain"
    | "h = handleResearch" | "h = handleStatus" | "h = handleDebrief" | "h = handleReport"
    | "h = handleAlert" | "h = handleEscalate" | "h = handleSanitize" | "h = handleHelp"
    | "h = handleConfig"
    by (auto simp: initializeCommands_table split: if_splits)
  then show ?thesis
  proof cases
    case 1
    then show ?thesis
      by (simp add: handleInvestigate_def formatResponse_def Let_def split: option.splits)
  next
    case 2
    then show ?thesis
      by (simp add: handleEngage_def formatResponse_def Let_def split: option.splits)
  next
    case 3
    then show ?thesis
      by (simp add: handleRetreat_def formatResponse_def Let_def split: option.splits)
  next
    case 4
    then show ?thesis
      by (simp add: handleContain_def formatResponse_def Let_def split: option.splits)
  next
    case 5
    then show ?thesis
      by (simp add: handleResearch_def formatResponse_def Let_def split: option.splits)
  next
    case 6
    then show ?thesis
      by (simp add: handleStatus_def formatResponse_def Let_def)
  next
    case 7
    then show ?thesis
      by (simp add: handleDebrief_def formatResponse_def Let_def split: option.splits)
  next
    case 8
    then show ?thesis
      by (simp add: handleReport_def formatResponse_def Let_def)
  next
    case 9
    then show ?thesis
      by (simp add: handleAlert_def formatResponse_def Let_def split: option.splits)
  next
    case 10
    then show ?thesis
      by (simp add: handleEscalate_def escalateThreatLevel_def formatResponse_def Let_def)
  next
    case 11
    then show ?thesis
      by (simp add: handleSanitize_def formatResponse_def Let_def split: option.splits)
  next
    case 12
    then show ?thesis
      by (simp add: handleHelp_def formatResponse_def Let_def)
  next
    case 13
    then show ?thesis
      by (simp add: handleConfig_def formatResponse_def Let_def split: option.splits)
  qed
qed

lemma processCommand_envelope:
  assumes "trim input = [] \<or> tokenizeInput (trim input) \<noteq> []"
  shows "\<exists>r p'. processCommand initializeCommands e input p = (Inr r, p')
           \<and> (rsp_status r = ''SUCCESS'' \<or> rsp_status r = ''ERROR'')"
proof (cases "trim input = []")
  case True
  then show ?thesis
    by (simp add: processCommand_def formatResponse_def)
next
  case False
  with assms obtain t args where tok: "tokenizeInput (trim input) = t # args"
    by (cases "tokenizeInput (trim input)") auto
  show ?thesis
  proof (cases "initializeCommands (toUpperCase t)")
    case None
    with False tok show ?thesis
      by (simp add: processCommand_def formatResponse_def Let_def)
  next
    case (Some h)
    from builtin_handlers_return [OF Some, of e args p] obtain r p1 where
      "h e args p = (Inr r, p1)" "rsp_status r = ''SUCCESS'' \<or> rsp_status r = ''ERROR''"
      by blast
    with processCommand_returned [of input t args initializeCommands h e p r p1] tok Some
    show ?thesis
      by simp
  qed
qed

lemma processCommand_raises_iff:
  "(\<exists>err. fst (processCommand reg e input p) = Inl err)
     = (trim input \<noteq> [] \<and> tokenizeInput (trim input) = [])"
proof (cases "tokenizeInput (trim input)")
  case Nil
  then show ?thesis
    by (simp add: processCommand_def Let_def)
next
  case (Cons t args)
  then have ne: "trim input \<noteq> []"
    using tokenizeInput_Nil by auto
  show ?thesis
    using Cons ne
    by (auto simp: processCommand_def Let_def split: option.splits prod.splits sum.splits)
qed

text \<open>
  C6. \<open>processCommand\<close> does not return an envelope for every input string. The
  input consisting of one double quote is not empty after trimming and has no token, so
  \<open>tokens[0].toUpperCase()\<close>, which stands outside the \<open>try\<close> block, raises a
  TypeError that leaves the call, whatever the registry and the state are.
\<close>

theorem processCommand_lone_quote_raises:
  "processCommand reg e [dquote] p
     = (Inl (TypeError ''Cannot read properties of undefined (reading toUpperCase)''), p)"
  by (simp add: processCommand_def trim_def js_space_def dquote_def word_char_def
      tokenizeInput.simps)

subsection \<open>Missing arguments\<close>

lemma logAction_frame:
  "agentStates (logAction e c a r p) = agentStates p"
  "threatLevel (logAction e c a r p) = threatLevel p"
  by (simp_all add: logAction_def Let_def)

lemma missing_argument_handler:
  assumes "map_of required_args c = Some n" and "length args < n"
  shows "\<exists>h msg. initializeCommands c = Some h
           \<and> h e args p = (Inr (formatResponse e ''ERROR'' msg None), p)"
proof -
  from assms(1) consider
      "c = ''INVESTIGATE''" "n = 1" | "c = ''ENGAGE''" "n = 2" | "c = ''RETREAT''" "n = 1"
    | "c = ''CONTAIN''" "n = 1" | "c = ''RESEARCH''" "n = 1" | "c = ''DEBRIEF''" "n = 1"
    | "c = ''ALERT''" "n = 1" | "c = ''SANITIZE''" "n = 1" | "c = ''CONFIG''" "n = 1"
    by (auto simp: required_args_def split: if_splits)
  then show ?thesis
  proof cases
    case 1
    with assms(2) show ?thesis
      by (fastforce simp: initializeCommands_table handleInvestigate_def arg_def)
  next
    case 2
    with assms(2) show ?thesis
      by (fastforce simp: initializeCommands_table handleEngage_def arg_def split: option.splits)
  next
    case 3
    with assms(2) show ?thesis
      by (fastforce simp: initializeCommands_table handleRetreat_def arg_def)
  next
    case 4
    with assms(2) show ?thesis
      by (fastforce simp: initializeCommands_table handleContain_def arg_def)
  next
    case 5
    with assms(2) show ?thesis
      by (fastforce simp: initializeCommands_table handleResearch_def arg_def)
  next
    case 6
    with assms(2) show ?thesis
      by (fastforce simp: initializeCommands_table handleDebrief_def arg_def)
  next
    case 7
    with assms(2) show ?thesis
      by (fastforce simp: initializeCommands_table handleAlert_def arg_def)
  next
    case 8
    with assms(2) show ?thesis
      by (fastforce simp: initializeCommands_table handleSanitize_def arg_def)
  next
    case 9
    with assms(2) show ?thesis
      by (fastforce simp: initializeCommands_table handleConfig_def arg_def)
  qed
qed

text \<open>
  C4. Dispatching a command whose handler tests required arguments, with fewer arguments
  than it requires, returns a response with status ERROR and leaves \<open>agentStates\<close>
  and the threat level as they were. (The processor holds no reference to a context
  manager, so a dispatch cannot reach the manager's stores at all; the audit log is the
  one field the dispatch writes.)
\<close>

theorem missing_argument_rejected:
  assumes tok: "tokenizeInput (trim input) = t # args"
    and req: "map_of required_args (toUpperCase t) = Some n"
    and short: "length args < n"
  shows "\<exists>r p'. processCommand initializeCommands e input p = (Inr r, p')
           \<and> rsp_status r = ''ERROR''
           \<and> agentStates p' = agentStates p \<and> threatLevel p' = threatLevel p"
proof -
  from tok have ne: "trim input \<noteq> []"
    using tokenizeInput_Nil by auto
  from missing_argument_handler [OF req short, of e p] obtain h msg where
    h: "initializeCommands (toUpperCase t) = Some h"
    and r: "h e args p = (Inr (formatResponse e ''ERROR'' msg None), p)"
    by blast
  have "processCommand initializeCommands e input p
          = (Inr (formatResponse e ''ERROR'' msg None),
             logAction e (toUpperCase t) args (formatResponse e ''ERROR'' msg None) p)"
    using ne tok h r by (simp add: processCommand_def Let_def)
  then show ?thesis
    by (simp add: logAction_frame formatResponse_def)
qed

theorem missing_argument_rejected_witness:
  "\<exists>r p'. processCommand initializeCommands \<lparr>now = ''t'', fresh_id = ''i''\<rparr> ''engage A1''
             (constructor\<lparr>threatLevel := CRITICAL\<rparr>) = (Inr r, p')
           \<and> rsp_status r = ''ERROR''
           \<and> agentStates p' = [] \<and> threatLevel p' = CRITICAL"
proof -
  have tok: "tokenizeInput (trim ''engage A1'') = ''engage'' # [''A1'']"
    by code_simp
  have req: "map_of required_args (toUpperCase ''engage'') = Some 2"
    by code_simp
  have short: "length [''A1''] < (2::nat)"
    by simp
  show ?thesis
    using missing_argument_rejected [OF tok req short,
        of "\<lparr>now = ''t'', fresh_id = ''i''\<rparr>" "constructor\<lparr>threatLevel := CRITICAL\<rparr>"]
    by (simp add: constructor_def)
qed

subsection \<open>The audit log\<close>

lemma slice_last_short: "length xs \<le> n \<Longrightarrow> slice_last n xs = xs"
  by (simp add: slice_last_def)

lemma length_slice_last: "length (slice_last n xs) = min n (length xs)"
  by (simp add: slice_last_def)

lemma slice_last_append: "slice_last n (slice_last n xs @ ys) = slice_last n (xs @ ys)"
proof (cases "length xs \<le> n")
  case True
  then show ?thesis by (simp add: slice_last_short)
next
  case False
  then show ?thesis
    by (simp add: slice_last_def add.commute)
qed

lemma logAction_actionLog:
  "actionLog (logAction e c a r p)
     = slice_last 100 (actionLog p @
         [\<lparr>log_timestamp = now e, log_command = c, log_args = a, log_status = rsp_status r\<rparr>])"
  by (simp add: logAction_def Let_def slice_last_short)

lemma processCommand_actionLog:
  assumes keep: "handlers_keep_log reg"
  shows "actionLog (snd (processCommand reg e input p))
           = (case logged_entry reg e input p of
                None \<Rightarrow> actionLog p
              | Some en \<Rightarrow> slice_last 100 (actionLog p @ [en]))"
proof (cases "tokenizeInput (trim input)")
  case Nil
  then show ?thesis
    by (simp add: processCommand_def logged_entry_def Let_def)
next
  case (Cons t args)
  show ?thesis
  proof (cases "reg (toUpperCase t)")
    case None
    with Cons show ?thesis
      by (simp add: processCommand_def logged_entry_def Let_def)
  next
    case (Some h)
    obtain res p1 where hr: "h e args p = (res, p1)"
      by (cases "h e args p")
    from keep Some have "actionLog (snd (h e args p)) = actionLog p"
      unfolding handlers_keep_log_def by blast
    with hr have p1: "actionLog p1 = actionLog p"
      by simp
    show ?thesis
    proof (cases res)
      case (Inl err)
      with Cons Some hr p1 show ?thesis
        by (simp add: processCommand_raised logged_entry_def)
    next
      case (Inr r)
      with Cons Some hr p1 show ?thesis
        by (simp add: processCommand_returned logged_entry_def logAction_actionLog)
    qed
  qed
qed

lemma processCommand_log_bounded:
  assumes "handlers_keep_log reg" and "length (actionLog p) \<le> 100"
  shows "length (actionLog (snd (processCommand reg e input p))) \<le> 100"
  using assms(2)
  by (simp add: processCommand_actionLog [OF assms(1)] length_slice_last split: option.splits)

lemma run_commands_actionLog:
  assumes keep: "handlers_keep_log reg"
  shows "length (actionLog p) \<le> 100 \<Longrightarrow>
         actionLog (run_commands reg cmds p) = slice_last 100 (actionLog p @ run_entries reg cmds p)"
proof (induction cmds arbitrary: p)
  case Nil
  then show ?case by (simp add: slice_last_short)
next
  case (Cons c cmds)
  obtain e input where c: "c = (e, input)"
    by (cases c)
  let ?p' = "snd (processCommand reg e input p)"
  have b: "length (actionLog ?p') \<le> 100"
    using keep Cons.prems by (rule processCommand_log_bounded)
  have "actionLog (run_commands reg (c # cmds) p)
          = slice_last 100 (actionLog ?p' @ run_entries reg cmds ?p')"
    using Cons.IH [OF b] c by simp
  also have "\<dots> = slice_last 100 (actionLog p @ run_entries reg (c # cmds) p)"
  proof (cases "logged_entry reg e input p")
    case None
    then show ?thesis
      by (simp add: c processCommand_actionLog [OF keep])
  next
    case (Some en)
    then show ?thesis
      by (simp add: c processCommand_actionLog [OF keep] slice_last_append)
  qed
  finally show ?case .
qed

lemma length_run_entries:
  "all_logged reg cmds p \<Longrightarrow> length (run_entries reg cmds p) = length cmds"
proof (induction cmds arbitrary: p)
  case Nil
  then show ?case by simp
next
  case (Cons c cmds)
  obtain e input where c: "c = (e, input)"
    by (cases c)
  with Cons show ?case
    by (auto split: option.splits)
qed

lemma builtin_handlers_keep_log: "handlers_keep_log initializeCommands"
proof -
  have "actionLog (snd (h e args p)) = actionLog p"
    if "initializeCommands c = Some h" for c h e args p
  proof -
    from that consider
        "h = handleInvestigate" | "h = handleEngage" | "h = handleRetreat" | "h = handleContain"
      | "h = handleResearch" | "h = handleStatus" | "h = handleDebrief" | "h = handleReport"
      | "h = handleAlert" | "h = handleEscalate" | "h = handleSanitize" | "h = handleHelp"
      | "h = handleConfig"
      by (auto simp: initializeCommands_table split: if_splits)
    then show ?thesis
    proof cases
      case 1
      then show ?thesis
        by (simp add: handleInvestigate_def Let_def split: option.splits)
    next
      case 2
      then show ?thesis
        by (simp add: handleEngage_def checkThreatLevel_def Let_def split: option.splits)
    next
      case 3
      then show ?thesis
        by (simp add: handleRetreat_def Let_def split: option.splits)
    next
      case 4
      then show ?thesis
        by (simp add: handleContain_def Let_def split: option.splits)
    next
      case 5
      then show ?thesis
        by (simp add: handleResearch_def Let_def split: option.splits)
    next
      case 6
      then show ?thesis
        by (simp add: handleStatus_def Let_def)
    next
      case 7
      then show ?thesis
        by (simp add: handleDebrief_def Let_def split: option.splits)
    next
      case 8
      then show ?thesis
        by (simp add: handleReport_def Let_def)
    next
      case 9
      then show ?thesis
        by (simp add: handleAlert_def Let_def split: option.splits)
    next
      case 10
      then show ?thesis
        by (simp add: handleEscalate_def escalateThreatLevel_def Let_def)
    next
      case 11
      then show ?thesis
        by (simp add: handleSanitize_def Let_def split: option.splits)
    next
      case 12
      then show ?thesis
        by (simp add: handleHelp_def Let_def)
    next
      case 13
      then show ?thesis
        by (simp add: handleConfig_def Let_def split: option.splits)
    qed
  qed
  then show ?thesis
    unfolding handlers_keep_log_def by blast
qed

lemma registerCommand_keeps_log:
  assumes "handlers_keep_log reg" and "\<And>e args p. actionLog (snd (h e args p)) = actionLog p"
  shows "handlers_keep_log (registerCommand c h reg)"
  using assms unfolding handlers_keep_log_def registerCommand_def
  by (auto split: if_splits)

text \<open>
  C5. For a registry whose handlers do not write the audit log themselves (the thirteen
  registered handlers are such): a dispatch whose handler returns a response, with status
  SUCCESS or ERROR, returns that response and appends exactly one entry
  \<open>{timestamp, command, args, status}\<close>, after which only the last 100 entries are
  kept; a dispatch whose handler raises answers \<open>Command execution failed\<close> and
  leaves the log as it was; a log of at most 100 entries has at most 100 entries after
  every dispatch and, after any list of commands, holds the last 100 of the old entries
  followed by the appended ones; after 105 commands that each complete, starting from the
  constructor's state, it holds exactly the last 100 of the 105 entries, oldest first.
\<close>

theorem audit_log_ring_buffer:
  assumes keep: "handlers_keep_log reg"
  shows
    "(\<forall>t args h r p1.
        tokenizeInput (trim input) = t # args \<and> reg (toUpperCase t) = Some h
          \<and> h e args p = (Inr r, p1) \<longrightarrow>
        fst (processCommand reg e input p) = Inr r
        \<and> actionLog (snd (processCommand reg e input p))
            = slice_last 100 (actionLog p @
                [\<lparr>log_timestamp = now e, log_command = toUpperCase t, log_args = args,
                  log_status = rsp_status r\<rparr>]))
     \<and> (\<forall>t args h err p1.
        tokenizeInput (trim input) = t # args \<and> reg (toUpperCase t) = Some h
          \<and> h e args p = (Inl err, p1) \<longrightarrow>
        fst (processCommand reg e input p)
          = Inr (formatResponse e ''ERROR''
                   (''Command execution failed: '' @ error_message err) None)
        \<and> actionLog (snd (processCommand reg e input p)) = actionLog p)
     \<and> (length (actionLog p) \<le> 100 \<longrightarrow>
        length (actionLog (snd (processCommand reg e input p))) \<le> 100
        \<and> actionLog (run_commands reg cmds p)
            = slice_last 100 (actionLog p @ run_entries reg cmds p))
     \<and> (all_logged reg cmds constructor \<and> length cmds = 105 \<longrightarrow>
        actionLog (run_commands reg cmds constructor) = drop 5 (run_entries reg cmds constructor)
        \<and> length (actionLog (run_commands reg cmds constructor)) = 100)"
proof -
  have kept: "actionLog p1 = actionLog p" if "reg c = Some h" and "h e args p = (res, p1)"
    for c h args res p1
  proof -
    from keep that(1) have "actionLog (snd (h e args p)) = actionLog p"
      unfolding handlers_keep_log_def by blast
    with that(2) show ?thesis by simp
  qed
  have returned: "fst (processCommand reg e input p) = Inr r
      \<and> actionLog (snd (processCommand reg e input p))
          = slice_last 100 (actionLog p @
              [\<lparr>log_timestamp = now e, log_command = toUpperCase t, log_args = args,
                log_status = rsp_status r\<rparr>])"
    if "tokenizeInput (trim input) = t # args" and "reg (toUpperCase t) = Some h"
      and "h e args p = (Inr r, p1)" for t args h r p1
    using that kept [OF that(2) that(3)]
      processCommand_returned [of input t args reg h e p r p1]
    by (simp add: logAction_actionLog)
  have raised: "fst (processCommand reg e input p)
        = Inr (formatResponse e ''ERROR''
                 (''Command execution failed: '' @ error_message err) None)
      \<and> actionLog (snd (processCommand reg e input p)) = actionLog p"
    if "tokenizeInput (trim input) = t # args" and "reg (toUpperCase t) = Some h"
      and "h e args p = (Inl err, p1)" for t args h err p1
    using that kept [OF that(2) that(3)]
      processCommand_raised [of input t args reg h e p err p1]
    by simp
  have bounded: "length (actionLog (snd (processCommand reg e input p))) \<le> 100
      \<and> actionLog (run_commands reg cmds p)
          = slice_last 100 (actionLog p @ run_entries reg cmds p)"
    if "length (actionLog p) \<le> 100"
    using processCommand_log_bounded [OF keep that] run_commands_actionLog [OF keep that]
    by simp
  have recent: "actionLog (run_commands reg cmds constructor)
        = drop 5 (run_entries reg cmds constructor)
      \<and> length (actionLog (run_commands reg cmds constructor)) = 100"
    if "all_logged reg cmds constructor" and "length cmds = 105"
  proof -
    have len: "length (run_entries reg cmds constructor) = 105"
      using length_run_entries [OF that(1)] that(2) by simp
    have "actionLog (run_commands reg cmds constructor)
            = slice_last 100 (run_entries reg cmds constructor)"
      using run_commands_actionLog [OF keep, of constructor cmds]
      by (simp add: constructor_def)
    with len show ?thesis
      by (simp add: slice_last_def)
  qed
  from returned raised bounded recent show ?thesis
    by blast
qed

lemma escalate_always_logged:
  "logged_entry (registerCommand ''boom'' raising_handler initializeCommands) e ''escalate'' p
     = Some \<lparr>log_timestamp = now e, log_command = ''ESCALATE'', log_args = [],
             log_status = ''SUCCESS''\<rparr>"
proof -
  have tok: "tokenizeInput (trim ''escalate'') = [''escalate'']"
    by code_simp
  have up: "toUpperCase ''escalate'' = ''ESCALATE''" "toUpperCase ''boom'' = ''BOOM''"
    by code_simp+
  show ?thesis
    by (simp add: logged_entry_def tok up registerCommand_def initializeCommands_table
        handleEscalate_def escalateThreatLevel_def formatResponse_def Let_def)
qed

lemma escalate_all_logged:
  "all_logged (registerCommand ''boom'' raising_handler initializeCommands)
     (replicate n (e, ''escalate'')) p"
  by (induction n arbitrary: p) (simp_all add: escalate_always_logged)

theorem audit_log_ring_buffer_witness:
  "fst (processCommand (registerCommand ''boom'' raising_handler initializeCommands)
          \<lparr>now = ''t'', fresh_id = ''i''\<rparr> ''boom'' constructor)
     = Inr (formatResponse \<lparr>now = ''t'', fresh_id = ''i''\<rparr> ''ERROR''
              ''Command execution failed: boom'' None)
   \<and> actionLog (snd (processCommand (registerCommand ''boom'' raising_handler initializeCommands)
          \<lparr>now = ''t'', fresh_id = ''i''\<rparr> ''boom'' constructor)) = []
   \<and> actionLog (snd (processCommand (registerCommand ''boom'' raising_handler initializeCommands)
          \<lparr>now = ''t'', fresh_id = ''i''\<rparr> ''config'' constructor))
       = [\<lparr>log_timestamp = ''t'', log_command = ''CONFIG'', log_args = [],
           log_status = ''ERROR''\<rparr>]
   \<and> length (actionLog (run_commands (registerCommand ''boom'' raising_handler initializeCommands)
          (replicate 105 (\<lparr>now = ''t'', fresh_id = ''i''\<rparr>, ''escalate'')) constructor)) = 100"
proof -
  let ?reg = "registerCommand ''boom'' raising_handler initializeCommands"
  let ?e = "\<lparr>now = ''t'', fresh_id = ''i''\<rparr>"
  let ?cmds = "replicate 105 (?e, ''escalate'')"
  have keep: "handlers_keep_log ?reg"
    by (rule registerCommand_keeps_log [OF builtin_handlers_keep_log])
      (simp add: raising_handler_def)
  have up: "toUpperCase ''boom'' = ''BOOM''" "toUpperCase ''config'' = ''CONFIG''"
    by code_simp+
  have boom: "tokenizeInput (trim ''boom'') = ''boom'' # []
      \<and> ?reg (toUpperCase ''boom'') = Some raising_handler
      \<and> raising_handler ?e [] constructor = (Inl (Error ''boom''), constructor)"
  proof -
    have "tokenizeInput (trim ''boom'') = ''boom'' # []"
      by code_simp
    then show ?thesis
      by (simp add: up registerCommand_def raising_handler_def)
  qed
  have config: "tokenizeInput (trim ''config'') = ''config'' # []
      \<and> ?reg (toUpperCase ''config'') = Some handleConfig
      \<and> handleConfig ?e [] constructor
          = (Inr (formatResponse ?e ''ERROR'' ''CONFIG requires a setting name'' None),
             constructor)"
  proof -
    have "tokenizeInput (trim ''config'') = ''config'' # []"
      by code_simp
    then show ?thesis
      by (simp add: up registerCommand_def initializeCommands_table handleConfig_def arg_def)
  qed
  have run: "all_logged ?reg ?cmds constructor \<and> length ?cmds = 105"
    by (simp add: escalate_all_logged)
  note a = audit_log_ring_buffer [OF keep, of "''boom''" ?e constructor ?cmds]
  note b = audit_log_ring_buffer [OF keep, of "''config''" ?e constructor ?cmds]
  from a boom have 1: "fst (processCommand ?reg ?e ''boom'' constructor)
        = Inr (formatResponse ?e ''ERROR''
                 (''Command execution failed: '' @ error_message (Error ''boom'')) None)
      \<and> actionLog (snd (processCommand ?reg ?e ''boom'' constructor)) = actionLog constructor"
    by blast
  from b config have 2: "actionLog (snd (processCommand ?reg ?e ''config'' constructor))
      = slice_last 100 (actionLog constructor @
          [\<lparr>log_timestamp = now ?e, log_command = toUpperCase ''config'', log_args = [],
            log_status = rsp_status (formatResponse ?e ''ERROR''
              ''CONFIG requires a setting name'' None)\<rparr>])"
    by blast
  from a run have 3: "length (actionLog (run_commands ?reg ?cmds constructor)) = 100"
    by blast
  from 1 2 3 show ?thesis
    by (simp add: constructor_def up formatResponse_def slice_last_def)
qed

section \<open>Properties of the context manager\<close>

subsection \<open>Sanity\<close>

text \<open>
  C1 (as amended). For an agent that has a tracker and an agent record,
  \<open>modifySanity\<close> returns the tracker and stores it; the new current is
  \<open>max 0 (min max (current + delta))\<close> and max is kept; exactly one history entry is
  appended (also for delta 0); when the new current is 0 exactly one
  \<open>complete_break\<close> breakpoint is appended and the agent's status becomes
  \<open>incapacitated\<close>; otherwise, when the new current is below 0.25 times max, exactly
  one \<open>critical\<close> breakpoint is appended and the status is kept; otherwise neither
  changes. The new current is never negative, and it is at most max whenever max is not
  negative.
\<close>

theorem modifySanity_effect:
  assumes tr: "map_of (sanityTracker s) agentId = Some t"
    and ag: "map_of (agents s) agentId = Some a"
  shows "\<exists>t' a' s'. modifySanity ts agentId delta s = (Inr t', s')
      \<and> map_of (sanityTracker s') agentId = Some t' \<and> map_of (agents s') agentId = Some a'
      \<and> tr_current t' = max 0 (min (tr_max t) (tr_current t + delta))
      \<and> tr_max t' = tr_max t
      \<and> tr_history t' = tr_history t @
            [\<lparr>h_timestamp = ts, h_delta = delta, h_previous = tr_current t,
              h_current = tr_current t', h_reason = []\<rparr>]
      \<and> (if tr_current t' = 0 then
            tr_breakpoints t' = tr_breakpoints t @
              [\<lparr>bp_timestamp = ts, bp_type = ''complete_break''\<rparr>]
            \<and> ag_status a' = ''incapacitated''
          else if real_of_int (tr_current t') < real_of_int (tr_max t') * 0.25 then
            tr_breakpoints t' = tr_breakpoints t @
              [\<lparr>bp_timestamp = ts, bp_type = ''critical''\<rparr>]
            \<and> ag_status a' = ag_status a
          else tr_breakpoints t' = tr_breakpoints t \<and> ag_status a' = ag_status a)
      \<and> ag_sanity a' = tr_current t'
      \<and> 0 \<le> tr_current t'
      \<and> (0 \<le> tr_max t \<longrightarrow> sanity_in_range t')"
proof -
  define c where "c = max 0 (min (tr_max t) (tr_current t + delta))"
  have range: "0 \<le> c" "0 \<le> tr_max t \<Longrightarrow> c \<le> tr_max t"
    by (simp_all add: c_def)
  consider (break) "c = 0"
    | (critical) "c \<noteq> 0" "real_of_int c < real_of_int (tr_max t) * 0.25"
    | (calm) "c \<noteq> 0" "\<not> real_of_int c < real_of_int (tr_max t) * 0.25"
    by blast
  then show ?thesis
  proof cases
    case break
    with range show ?thesis
      unfolding modifySanity_def tr ag option.case prod.case Let_def c_def [symmetric]
      by (simp add: tr ag AList.update_conv' sanity_in_range_def)
  next
    case critical
    with range show ?thesis
      unfolding modifySanity_def tr ag option.case prod.case Let_def c_def [symmetric]
      by (simp add: tr ag AList.update_conv' sanity_in_range_def)
  next
    case calm
    with range show ?thesis
      unfolding modifySanity_def tr ag option.case prod.case Let_def c_def [symmetric]
      by (simp add: tr ag AList.update_conv' sanity_in_range_def)
  qed
qed

theorem modifySanity_effect_witness:
  "\<exists>t' a' s'.
      modifySanity ''T1'' ''A1'' (- 75)
        (snd (registerAgent ''T0'' ''Gray-7''
          \<lparr>in_id = Some ''A1'', in_name = None, in_role = None, in_callsign = None,
           in_sanity = Some 70, in_maxSanity = Some 70, in_status = None, in_notes = None\<rparr>
          new_manager)) = (Inr t', s')
      \<and> map_of (agents s') ''A1'' = Some a'
      \<and> tr_current t' = 0 \<and> tr_max t' = 70
      \<and> tr_history t' = [\<lparr>h_timestamp = ''T1'', h_delta = - 75, h_previous = 70,
                            h_current = 0, h_reason = []\<rparr>]
      \<and> tr_breakpoints t' = [\<lparr>bp_timestamp = ''T1'', bp_type = ''complete_break''\<rparr>]
      \<and> ag_status a' = ''incapacitated'' \<and> sanity_in_range t'"
proof -
  let ?s = "snd (registerAgent ''T0'' ''Gray-7''
          \<lparr>in_id = Some ''A1'', in_name = None, in_role = None, in_callsign = None,
           in_sanity = Some 70, in_maxSanity = Some 70, in_status = None, in_notes = None\<rparr>
          new_manager)"
  have tr: "map_of (sanityTracker ?s) ''A1''
      = Some \<lparr>tr_current = 70, tr_max = 70, tr_history = [], tr_breakpoints = []\<rparr>"
    by (simp add: registerAgent_def new_manager_def Let_def)
  obtain a where ag: "map_of (agents ?s) ''A1'' = Some a"
    by (simp add: registerAgent_def new_manager_def Let_def)
  from modifySanity_effect [OF tr ag, of "''T1''" "- 75"] obtain t' a' s' where
    "modifySanity ''T1'' ''A1'' (- 75) ?s = (Inr t', s')"
    "map_of (agents s') ''A1'' = Some a'"
    "tr_current t' = 0" "tr_max t' = 70"
    "tr_history t' = [\<lparr>h_timestamp = ''T1'', h_delta = - 75, h_previous = 70,
                        h_current = 0, h_reason = []\<rparr>]"
    "tr_breakpoints t' = [\<lparr>bp_timestamp = ''T1'', bp_type = ''complete_break''\<rparr>]"
    "ag_status a' = ''incapacitated''" "sanity_in_range t'"
    by auto
  then show ?thesis
    by blast
qed

theorem modifySanity_negative_max_counterexample:
  "fst (modifySanity ''T1'' ''A1'' 0
     (snd (registerAgent ''T0'' ''Gray-7''
        \<lparr>in_id = Some ''A1'', in_name = None, in_role = None, in_callsign = None,
         in_sanity = Some 10, in_maxSanity = Some (- 5), in_status = None, in_notes = None\<rparr>
        new_manager)))
     = Inr \<lparr>tr_current = 0, tr_max = - 5,
            tr_history = [\<lparr>h_timestamp = ''T1'', h_delta = 0, h_previous = 10,
                            h_current = 0, h_reason = []\<rparr>],
            tr_breakpoints = [\<lparr>bp_timestamp = ''T1'', bp_type = ''complete_break''\<rparr>]\<rparr>
   \<and> \<not> sanity_in_range
        \<lparr>tr_current = 0, tr_max = - 5,
         tr_history = [\<lparr>h_timestamp = ''T1'', h_delta = 0, h_previous = 10,
                         h_current = 0, h_reason = []\<rparr>],
         tr_breakpoints = [\<lparr>bp_timestamp = ''T1'', bp_type = ''complete_break''\<rparr>]\<rparr>"
  by (simp add: modifySanity_def registerAgent_def new_manager_def Let_def sanity_in_range_def)

subsection \<open>Threat assessments\<close>

text \<open>
  C10. The threat level \<open>createThreatAssessment\<close> stores and returns always lies
  between 1 and 10. An absent \<open>threat_level\<close>, and also a supplied 0, becomes the
  default 5 (the default is applied before the clamp, so 0 is not raised to 1); every
  other number \<open>v\<close> becomes \<open>max 1 (min 10 v)\<close>.
\<close>

theorem createThreatAssessment_level:
  "1 \<le> th_threatLevel (fst (createThreatAssessment ts t s))
   \<and> th_threatLevel (fst (createThreatAssessment ts t s)) \<le> 10
   \<and> (thi_threat_level t = None \<or> thi_threat_level t = Some 0 \<longrightarrow>
        th_threatLevel (fst (createThreatAssessment ts t s)) = 5)
   \<and> (\<forall>v. thi_threat_level t = Some v \<and> v \<noteq> 0 \<longrightarrow>
        th_threatLevel (fst (createThreatAssessment ts t s)) = max 1 (min 10 v))
   \<and> map_of (threats (snd (createThreatAssessment ts t s)))
        (th_id (fst (createThreatAssessment ts t s)))
      = Some (fst (createThreatAssessment ts t s))"
  by (auto simp: createThreatAssessment_def Let_def AList.update_conv')

theorem createThreatAssessment_level_witness:
  "th_threatLevel (fst (createThreatAssessment ''T0''
       \<lparr>thi_name = None, thi_type = None, thi_threat_level = Some 0,
        thi_classification = None, thi_containment_status = None\<rparr> new_manager)) = 5
   \<and> th_threatLevel (fst (createThreatAssessment ''T0''
       \<lparr>thi_name = None, thi_type = None, thi_threat_level = Some (- 3),
        thi_classification = None, thi_containment_status = None\<rparr> new_manager)) = 1
   \<and> th_threatLevel (fst (createThreatAssessment ''T0''
       \<lparr>thi_name = None, thi_type = None, thi_threat_level = Some 42,
        thi_classification = None, thi_containment_status = None\<rparr> new_manager)) = 10"
  using
    createThreatAssessment_level [of "''T0''"
       "\<lparr>thi_name = None, thi_type = None, thi_threat_level = Some 0,
        thi_classification = None, thi_containment_status = None\<rparr>" new_manager]
    createThreatAssessment_level [of "''T0''"
       "\<lparr>thi_name = None, thi_type = None, thi_threat_level = Some (- 3),
        thi_classification = None, thi_containment_status = None\<rparr>" new_manager]
    createThreatAssessment_level [of "''T0''"
       "\<lparr>thi_name = None, thi_type = None, thi_threat_level = Some 42,
        thi_classification = None, thi_containment_status = None\<rparr>" new_manager]
  by simp

subsection \<open>Team dynamics\<close>

lemma adjust_team_casualtyCount:
  "tm_casualtyCount (adjust_team d t)
     = tm_casualtyCount t + (case dy_casualty d of None \<Rightarrow> 0 | Some k \<Rightarrow> k)"
proof -
  define cl where "cl x = max 0 (min 100 x)" for x :: int
  show ?thesis
    unfolding adjust_team_def cl_def [symmetric]
    by (cases "dy_morale d"; cases "dy_cohesion d"; cases "dy_casualty d"; cases "dy_tactics d";
        simp add: Let_def)
qed

lemma adjust_team_cohesion:
  "tm_cohesion (adjust_team d t)
     = (case dy_cohesion d of None \<Rightarrow> tm_cohesion t | Some c \<Rightarrow> max 0 (min 100 c))"
proof -
  define cl where "cl x = max 0 (min 100 x)" for x :: int
  have "tm_cohesion (adjust_team d t)
          = (case dy_cohesion d of None \<Rightarrow> tm_cohesion t | Some c \<Rightarrow> cl c)"
    unfolding adjust_team_def cl_def [symmetric]
    by (cases "dy_morale d"; cases "dy_cohesion d"; cases "dy_casualty d"; cases "dy_tactics d";
        simp add: Let_def)
  then show ?thesis
    unfolding cl_def .
qed

lemma adjust_team_id: "tm_id (adjust_team d t) = tm_id t"
proof -
  define cl where "cl x = max 0 (min 100 x)" for x :: int
  show ?thesis
    unfolding adjust_team_def cl_def [symmetric]
    by (cases "dy_morale d"; cases "dy_cohesion d"; cases "dy_casualty d"; cases "dy_tactics d";
        simp add: Let_def)
qed

lemma adjust_team_morale:
  "tm_morale (adjust_team d t)
     = (let m = (case dy_morale d of None \<Rightarrow> tm_morale t | Some m \<Rightarrow> max 0 (min 100 m))
        in if tm_casualtyCount (adjust_team d t) > 0
           then max 0 (m - min 30 (tm_casualtyCount (adjust_team d t) * 5)) else m)"
proof -
  define cl where "cl x = max 0 (min 100 x)" for x :: int
  let ?k = "tm_casualtyCount t + (case dy_casualty d of None \<Rightarrow> 0 | Some k \<Rightarrow> k)"
  let ?m = "case dy_morale d of None \<Rightarrow> tm_morale t | Some m \<Rightarrow> cl m"
  have "tm_morale (adjust_team d t) = (if ?k > 0 then max 0 (?m - min 30 (?k * 5)) else ?m)"
    unfolding adjust_team_def cl_def [symmetric]
    by (cases "dy_morale d"; cases "dy_cohesion d"; cases "dy_casualty d"; cases "dy_tactics d";
        simp add: Let_def)
  then show ?thesis
    unfolding cl_def by (simp add: adjust_team_casualtyCount Let_def)
qed

lemma manageTeamDynamics_found:
  assumes "map_of (teams s) teamId = Some t"
  shows "manageTeamDynamics teamId d s
      = (Inr \<lparr>dr_teamId = tm_id t, dr_morale = tm_morale (adjust_team d t),
               dr_cohesion = tm_cohesion (adjust_team d t),
               dr_casualties = tm_casualtyCount (adjust_team d t),
               dr_status = (if tm_morale (adjust_team d t) > 50 then ''operational''
                            else ''compromised'')\<rparr>,
         s\<lparr>teams := AList.update teamId (adjust_team d t) (teams s)\<rparr>)"
  using assms by (simp add: manageTeamDynamics_def Let_def adjust_team_id)

lemma manageTeamDynamics_stored:
  assumes "map_of (teams s) teamId = Some t"
  shows "map_of (teams (snd (manageTeamDynamics teamId d s))) teamId = Some (adjust_team d t)"
  by (simp add: manageTeamDynamics_found [OF assms] AList.update_conv')

lemma adjust_team_one_casualty:
  "adjust_team \<lparr>dy_morale = None, dy_cohesion = None, dy_casualty = Some 1, dy_tactics = None\<rparr> t
     = (if tm_casualtyCount t + 1 > 0
        then t\<lparr>tm_casualtyCount := tm_casualtyCount t + 1,
               tm_morale := max 0 (tm_morale t - min 30 ((tm_casualtyCount t + 1) * 5))\<rparr>
        else t\<lparr>tm_casualtyCount := tm_casualtyCount t + 1\<rparr>)"
  by (simp add: adjust_team_def Let_def)

text \<open>
  C7. For a team that exists, \<open>manageTeamDynamics\<close> first applies the supplied
  morale and cohesion clamped to [0,100], adds the casualty delta, and then, whenever the
  resulting casualty count is positive, subtracts \<open>min 30 (casualtyCount * 5)\<close> from
  morale, not going below 0; the penalty is computed from the cumulative count on every
  call. The returned status is \<open>operational\<close> exactly when the resulting morale
  exceeds 50, otherwise \<open>compromised\<close>. When the count goes from 0 to 2 by two calls
  that each add 1, the first call subtracts 5 and the second subtracts
  \<open>min 30 (2 * 5) = 10\<close>.
\<close>

theorem manageTeamDynamics_effect:
  assumes tm: "map_of (teams s) teamId = Some t"
  shows "(\<exists>r t' s'. manageTeamDynamics teamId d s = (Inr r, s')
      \<and> map_of (teams s') teamId = Some t'
      \<and> tm_cohesion t'
          = (case dy_cohesion d of None \<Rightarrow> tm_cohesion t | Some c \<Rightarrow> max 0 (min 100 c))
      \<and> tm_casualtyCount t'
          = tm_casualtyCount t + (case dy_casualty d of None \<Rightarrow> 0 | Some k \<Rightarrow> k)
      \<and> tm_morale t'
          = (let m = (case dy_morale d of None \<Rightarrow> tm_morale t | Some m \<Rightarrow> max 0 (min 100 m))
             in if tm_casualtyCount t' > 0
                then max 0 (m - min 30 (tm_casualtyCount t' * 5)) else m)
      \<and> dr_morale r = tm_morale t' \<and> dr_cohesion r = tm_cohesion t'
      \<and> dr_casualties r = tm_casualtyCount t'
      \<and> dr_status r = (if tm_morale t' > 50 then ''operational'' else ''compromised''))
    \<and> (tm_casualtyCount t = 0 \<longrightarrow>
        (\<exists>t1 t2.
           map_of (teams (manage_all teamId
              [\<lparr>dy_morale = None, dy_cohesion = None, dy_casualty = Some 1, dy_tactics = None\<rparr>]
              s)) teamId = Some t1
         \<and> map_of (teams (manage_all teamId
              [\<lparr>dy_morale = None, dy_cohesion = None, dy_casualty = Some 1, dy_tactics = None\<rparr>,
               \<lparr>dy_morale = None, dy_cohesion = None, dy_casualty = Some 1, dy_tactics = None\<rparr>]
              s)) teamId = Some t2
         \<and> tm_casualtyCount t1 = 1 \<and> tm_morale t1 = max 0 (tm_morale t - min 30 (1 * 5))
         \<and> tm_casualtyCount t2 = 2 \<and> tm_morale t2 = max 0 (tm_morale t1 - min 30 (2 * 5))
         \<and> tm_morale t2 = max 0 (tm_morale t1 - 10)))"
proof -
  let ?one = "\<lparr>dy_morale = None, dy_cohesion = None, dy_casualty = Some 1, dy_tactics = None\<rparr>"
  let ?t' = "adjust_team d t"
  have general: "\<exists>r t' s'. manageTeamDynamics teamId d s = (Inr r, s')
      \<and> map_of (teams s') teamId = Some t'
      \<and> tm_cohesion t'
          = (case dy_cohesion d of None \<Rightarrow> tm_cohesion t | Some c \<Rightarrow> max 0 (min 100 c))
      \<and> tm_casualtyCount t'
          = tm_casualtyCount t + (case dy_casualty d of None \<Rightarrow> 0 | Some k \<Rightarrow> k)
      \<and> tm_morale t'
          = (let m = (case dy_morale d of None \<Rightarrow> tm_morale t | Some m \<Rightarrow> max 0 (min 100 m))
             in if tm_casualtyCount t' > 0
                then max 0 (m - min 30 (tm_casualtyCount t' * 5)) else m)
      \<and> dr_morale r = tm_morale t' \<and> dr_cohesion r = tm_cohesion t'
      \<and> dr_casualties r = tm_casualtyCount t'
      \<and> dr_status r = (if tm_morale t' > 50 then ''operational'' else ''compromised'')"
  proof (intro exI conjI)
    show "manageTeamDynamics teamId d s
      = (Inr \<lparr>dr_teamId = tm_id t, dr_morale = tm_morale ?t', dr_cohesion = tm_cohesion ?t',
               dr_casualties = tm_casualtyCount ?t',
               dr_status = (if tm_morale ?t' > 50 then ''operational'' else ''compromised'')\<rparr>,
         s\<lparr>teams := AList.update teamId ?t' (teams s)\<rparr>)"
      by (rule manageTeamDynamics_found [OF tm])
    show "map_of (teams (s\<lparr>teams := AList.update teamId ?t' (teams s)\<rparr>)) teamId = Some ?t'"
      by (simp add: AList.update_conv')
    show "tm_cohesion ?t'
        = (case dy_cohesion d of None \<Rightarrow> tm_cohesion t | Some c \<Rightarrow> max 0 (min 100 c))"
      by (rule adjust_team_cohesion)
    show "tm_casualtyCount ?t'
        = tm_casualtyCount t + (case dy_casualty d of None \<Rightarrow> 0 | Some k \<Rightarrow> k)"
      by (rule adjust_team_casualtyCount)
    show "tm_morale ?t'
        = (let m = (case dy_morale d of None \<Rightarrow> tm_morale t | Some m \<Rightarrow> max 0 (min 100 m))
           in if tm_casualtyCount ?t' > 0
              then max 0 (m - min 30 (tm_casualtyCount ?t' * 5)) else m)"
      by (rule adjust_team_morale)
  qed simp_all
  have scenario: "\<exists>t1 t2.
         map_of (teams (manage_all teamId [?one] s)) teamId = Some t1
       \<and> map_of (teams (manage_all teamId [?one, ?one] s)) teamId = Some t2
       \<and> tm_casualtyCount t1 = 1 \<and> tm_morale t1 = max 0 (tm_morale t - min 30 (1 * 5))
       \<and> tm_casualtyCount t2 = 2 \<and> tm_morale t2 = max 0 (tm_morale t1 - min 30 (2 * 5))
       \<and> tm_morale t2 = max 0 (tm_morale t1 - 10)"
    if zero: "tm_casualtyCount t = 0"
  proof -
    let ?t1 = "adjust_team ?one t"
    let ?s1 = "snd (manageTeamDynamics teamId ?one s)"
    have s1: "map_of (teams ?s1) teamId = Some ?t1"
      by (rule manageTeamDynamics_stored [OF tm])
    have s2: "map_of (teams (snd (manageTeamDynamics teamId ?one ?s1))) teamId
        = Some (adjust_team ?one ?t1)"
      by (rule manageTeamDynamics_stored [OF s1])
    have t1: "tm_casualtyCount ?t1 = 1" "tm_morale ?t1 = max 0 (tm_morale t - 5)"
      using zero by (simp_all add: adjust_team_one_casualty)
    have t2: "tm_casualtyCount (adjust_team ?one ?t1) = 2"
      "tm_morale (adjust_team ?one ?t1) = max 0 (tm_morale ?t1 - 10)"
      using t1(1) by (simp_all add: adjust_team_one_casualty [of ?t1])
    from s1 s2 t1 t2 show ?thesis
      by simp
  qed
  from general scenario show ?thesis
    by blast
qed

theorem manageTeamDynamics_effect_witness:
  "(\<exists>r s'. manageTeamDynamics ''T1''
        \<lparr>dy_morale = Some 120, dy_cohesion = None, dy_casualty = Some 2, dy_tactics = None\<rparr>
        (snd (createTeam ''T0''
           \<lparr>ti_id = Some ''T1'', ti_name = None, ti_memberIds = None, ti_objective = None,
            ti_morale = None, ti_cohesion = None, ti_tactics = None\<rparr> new_manager))
        = (Inr r, s')
      \<and> dr_morale r = 90 \<and> dr_casualties r = 2 \<and> dr_status r = ''operational'')
   \<and> (\<exists>t2. map_of (teams (manage_all ''T1''
        [\<lparr>dy_morale = None, dy_cohesion = None, dy_casualty = Some 1, dy_tactics = None\<rparr>,
         \<lparr>dy_morale = None, dy_cohesion = None, dy_casualty = Some 1, dy_tactics = None\<rparr>]
        (snd (createTeam ''T0''
           \<lparr>ti_id = Some ''T1'', ti_name = None, ti_memberIds = None, ti_objective = None,
            ti_morale = None, ti_cohesion = None, ti_tactics = None\<rparr> new_manager)))) ''T1''
        = Some t2
      \<and> tm_casualtyCount t2 = 2 \<and> tm_morale t2 = 60)"
proof -
  let ?s = "snd (createTeam ''T0''
           \<lparr>ti_id = Some ''T1'', ti_name = None, ti_memberIds = None, ti_objective = None,
            ti_morale = None, ti_cohesion = None, ti_tactics = None\<rparr> new_manager)"
  let ?d = "\<lparr>dy_morale = Some 120, dy_cohesion = None, dy_casualty = Some 2,
             dy_tactics = None\<rparr>"
  obtain t where tm: "map_of (teams ?s) ''T1'' = Some t"
    and t: "tm_morale t = 75" "tm_casualtyCount t = 0"
    by (simp add: createTeam_def new_manager_def Let_def)
  from manageTeamDynamics_effect [OF tm, of ?d] t show ?thesis
    by (simp add: Let_def) fastforce
qed

subsection \<open>Casualties\<close>

lemma manage_all_append:
  "manage_all teamId (xs @ ys) s = manage_all teamId ys (manage_all teamId xs s)"
  by (induction xs arbitrary: s) simp_all

lemma manage_all_monotone:
  assumes "map_of (teams s) teamId = Some t" and "\<forall>d\<in>set ds. nonneg_casualty d"
  shows "\<exists>t'. map_of (teams (manage_all teamId ds s)) teamId = Some t'
           \<and> tm_casualtyCount t \<le> tm_casualtyCount t'"
  using assms
proof (induction ds arbitrary: s t)
  case Nil
  then show ?case by simp
next
  case (Cons d ds)
  let ?s1 = "snd (manageTeamDynamics teamId d s)"
  have s1: "map_of (teams ?s1) teamId = Some (adjust_team d t)"
    by (rule manageTeamDynamics_stored [OF Cons.prems(1)])
  from Cons.prems(2) have "nonneg_casualty d"
    by simp
  then have step: "tm_casualtyCount t \<le> tm_casualtyCount (adjust_team d t)"
    by (simp add: adjust_team_casualtyCount nonneg_casualty_def split: option.splits)
  from Cons.prems(2) have rest: "\<forall>d\<in>set ds. nonneg_casualty d"
    by simp
  from Cons.IH [OF s1 rest] step show ?case
    by auto
qed

text \<open>
  C8 (as amended). \<open>createTeam\<close> starts the casualty count at 0. For every team and
  every sequence of \<open>manageTeamDynamics\<close> calls on it whose casualty deltas are absent
  or not negative, the count after any number of the calls is at least the count before
  them and at most the count after all of them, and it is not negative when it was not
  negative at the start.
\<close>

theorem casualtyCount_monotone:
  assumes tm: "map_of (teams s) teamId = Some t"
    and nn: "\<forall>d\<in>set ds. nonneg_casualty d"
  shows "tm_casualtyCount (fst (createTeam ts ti s0)) = 0
    \<and> (\<exists>t1 t2. map_of (teams (manage_all teamId (take n ds) s)) teamId = Some t1
          \<and> map_of (teams (manage_all teamId ds s)) teamId = Some t2
          \<and> tm_casualtyCount t \<le> tm_casualtyCount t1
          \<and> tm_casualtyCount t1 \<le> tm_casualtyCount t2
          \<and> (0 \<le> tm_casualtyCount t \<longrightarrow> 0 \<le> tm_casualtyCount t1))"
proof -
  from nn have nn1: "\<forall>d\<in>set (take n ds). nonneg_casualty d"
    by (meson in_set_takeD)
  from nn have nn2: "\<forall>d\<in>set (drop n ds). nonneg_casualty d"
    by (meson in_set_dropD)
  from manage_all_monotone [OF tm nn1] obtain t1 where
    t1: "map_of (teams (manage_all teamId (take n ds) s)) teamId = Some t1"
    and le1: "tm_casualtyCount t \<le> tm_casualtyCount t1"
    by blast
  from manage_all_monotone [OF t1 nn2] obtain t2 where
    t2: "map_of (teams (manage_all teamId (drop n ds) (manage_all teamId (take n ds) s))) teamId
           = Some t2"
    and le2: "tm_casualtyCount t1 \<le> tm_casualtyCount t2"
    by blast
  have "manage_all teamId ds s
          = manage_all teamId (drop n ds) (manage_all teamId (take n ds) s)"
    using manage_all_append [of teamId "take n ds" "drop n ds" s] by simp
  with t2 have t2': "map_of (teams (manage_all teamId ds s)) teamId = Some t2"
    by simp
  have "tm_casualtyCount (fst (createTeam ts ti s0)) = 0"
    by (simp add: createTeam_def Let_def)
  with t1 t2' le1 le2 show ?thesis
    by auto
qed

theorem casualtyCount_monotone_witness:
  "\<exists>t1 t2.
      map_of (teams (manage_all ''T1''
        (take 1 [\<lparr>dy_morale = None, dy_cohesion = None, dy_casualty = Some 1, dy_tactics = None\<rparr>,
                 \<lparr>dy_morale = None, dy_cohesion = None, dy_casualty = None, dy_tactics = None\<rparr>])
        (snd (createTeam ''T0''
           \<lparr>ti_id = Some ''T1'', ti_name = None, ti_memberIds = None, ti_objective = None,
            ti_morale = None, ti_cohesion = None, ti_tactics = None\<rparr> new_manager)))) ''T1''
        = Some t1
    \<and> map_of (teams (manage_all ''T1''
        [\<lparr>dy_morale = None, dy_cohesion = None, dy_casualty = Some 1, dy_tactics = None\<rparr>,
         \<lparr>dy_morale = None, dy_cohesion = None, dy_casualty = None, dy_tactics = None\<rparr>]
        (snd (createTeam ''T0''
           \<lparr>ti_id = Some ''T1'', ti_name = None, ti_memberIds = None, ti_objective = None,
            ti_morale = None, ti_cohesion = None, ti_tactics = None\<rparr> new_manager)))) ''T1''
        = Some t2
    \<and> 0 \<le> tm_casualtyCount t1 \<and> tm_casualtyCount t1 \<le> tm_casualtyCount t2"
proof -
  let ?s = "snd (createTeam ''T0''
           \<lparr>ti_id = Some ''T1'', ti_name = None, ti_memberIds = None, ti_objective = None,
            ti_morale = None, ti_cohesion = None, ti_tactics = None\<rparr> new_manager)"
  let ?ds = "[\<lparr>dy_morale = None, dy_cohesion = None, dy_casualty = Some 1, dy_tactics = None\<rparr>,
              \<lparr>dy_morale = None, dy_cohesion = None, dy_casualty = None, dy_tactics = None\<rparr>]"
  obtain t where tm: "map_of (teams ?s) ''T1'' = Some t" and t: "tm_casualtyCount t = 0"
    by (simp add: createTeam_def new_manager_def Let_def)
  have nn: "\<forall>d\<in>set ?ds. nonneg_casualty d"
    by (simp add: nonneg_casualty_def)
  from casualtyCount_monotone [OF tm nn, of "''T0''"
      "\<lparr>ti_id = Some ''T1'', ti_name = None, ti_memberIds = None, ti_objective = None,
        ti_morale = None, ti_cohesion = None, ti_tactics = None\<rparr>" new_manager 1] t show ?thesis
    by fastforce
qed

theorem casualtyCount_negative_delta_counterexample:
  "tm_casualtyCount (fst (createTeam ''T0''
      \<lparr>ti_id = Some ''T1'', ti_name = None, ti_memberIds = None, ti_objective = None,
       ti_morale = None, ti_cohesion = None, ti_tactics = None\<rparr> new_manager)) = 0
   \<and> fst (manageTeamDynamics ''T1''
        \<lparr>dy_morale = None, dy_cohesion = None, dy_casualty = Some (- 1), dy_tactics = None\<rparr>
        (snd (createTeam ''T0''
           \<lparr>ti_id = Some ''T1'', ti_name = None, ti_memberIds = None, ti_objective = None,
            ti_morale = None, ti_cohesion = None, ti_tactics = None\<rparr> new_manager)))
      = Inr \<lparr>dr_teamId = ''T1'', dr_morale = 75, dr_cohesion = 80, dr_casualties = - 1,
             dr_status = ''operational''\<rparr>"
  by (simp add: manageTeamDynamics_def adjust_team_def createTeam_def new_manager_def Let_def)

subsection \<open>History and breakpoints\<close>

lemma modifySanity_tracker_grows:
  assumes k: "map_of (sanityTracker s) k = Some t"
  shows "\<exists>t'. map_of (sanityTracker (snd (modifySanity ts agentId delta s))) k = Some t'
           \<and> prefix (tr_history t) (tr_history t')
           \<and> prefix (tr_breakpoints t) (tr_breakpoints t')"
proof (cases "map_of (sanityTracker s) agentId")
  case None
  with k show ?thesis
    by (simp add: modifySanity_def)
next
  case tr: (Some tracker)
  show ?thesis
  proof (cases "map_of (agents s) agentId")
    case None
    with tr k show ?thesis
      by (simp add: modifySanity_def)
  next
    case ag: (Some agent)
    define c where "c = max 0 (min (tr_max tracker) (tr_current tracker + delta))"
    show ?thesis
    proof (cases "k = agentId")
      case True
      with k tr have "t = tracker"
        by simp
      with True show ?thesis
        unfolding modifySanity_def tr ag option.case prod.case Let_def c_def [symmetric]
        by (simp add: AList.update_conv')
    next
      case False
      with k show ?thesis
        unfolding modifySanity_def tr ag option.case prod.case Let_def c_def [symmetric]
        by (simp add: AList.update_conv')
    qed
  qed
qed

lemma assign_agent_sanityTracker:
  "sanityTracker (assign_agent agentId f s) = sanityTracker s"
  by (simp add: assign_agent_def split: option.splits)

lemma apply_updates_tracker_grows:
  "map_of (sanityTracker s) k = Some t \<Longrightarrow>
   \<exists>t'. map_of (sanityTracker (snd (apply_updates ts agentId us s))) k = Some t'
         \<and> prefix (tr_history t) (tr_history t')
         \<and> prefix (tr_breakpoints t) (tr_breakpoints t')"
proof (induction ts agentId us s arbitrary: t rule: apply_updates.induct)
  case (2 ts agentId d us s)
  from modifySanity_tracker_grows [OF "2.prems", of ts agentId d] obtain t1 where
    t1: "map_of (sanityTracker (snd (modifySanity ts agentId d s))) k = Some t1"
    and p1: "prefix (tr_history t) (tr_history t1)"
      "prefix (tr_breakpoints t) (tr_breakpoints t1)"
    by blast
  obtain res s1 where m: "modifySanity ts agentId d s = (res, s1)"
    by (cases "modifySanity ts agentId d s")
  show ?case
  proof (cases res)
    case (Inl err)
    with m t1 p1 show ?thesis
      by simp
  next
    case (Inr tr)
    from t1 m have "map_of (sanityTracker s1) k = Some t1"
      by simp
    from "2.IH" [OF m [symmetric] Inr this] obtain t' where
      "map_of (sanityTracker (snd (apply_updates ts agentId us s1))) k = Some t'"
      "prefix (tr_history t1) (tr_history t')" "prefix (tr_breakpoints t1) (tr_breakpoints t')"
      by blast
    with p1 m Inr show ?thesis
      by (auto intro: prefix_order.trans)
  qed
qed (simp_all add: assign_agent_sanityTracker)

lemma updateAgentStatus_tracker_grows:
  assumes "map_of (sanityTracker s) k = Some t"
  shows "\<exists>t'. map_of (sanityTracker (snd (updateAgentStatus ts agentId us s))) k = Some t'
           \<and> prefix (tr_history t) (tr_history t')
           \<and> prefix (tr_breakpoints t) (tr_breakpoints t')"
proof (cases "map_of (agents s) agentId")
  case None
  with assms show ?thesis
    by (simp add: updateAgentStatus_def)
next
  case (Some a)
  obtain res s1 where u: "apply_updates ts agentId us s = (res, s1)"
    by (cases "apply_updates ts agentId us s")
  from apply_updates_tracker_grows [OF assms, of ts agentId us] u obtain t' where
    "map_of (sanityTracker s1) k = Some t'"
    "prefix (tr_history t) (tr_history t')" "prefix (tr_breakpoints t) (tr_breakpoints t')"
    by auto
  with Some u show ?thesis
    by (cases res)
      (auto simp: updateAgentStatus_def Let_def assign_agent_sanityTracker split: option.splits)
qed

text \<open>
  C9 (as amended). For every agent id that has a tracker, every call of the context
  manager other than a \<open>registerAgent\<close> that stores under this id and a
  \<open>resetCampaign\<close> that does not preserve the agents leaves a tracker under the id
  whose history and breakpoints lists begin with the lists as they were: they do not
  shrink and no existing entry is rewritten. This covers \<open>modifySanity\<close>,
  \<open>updateAgentStatus\<close>, \<open>registerAgent\<close> for another id, \<open>createTeam\<close>,
  \<open>manageTeamDynamics\<close> and \<open>createThreatAssessment\<close>, whether they return or
  raise.
\<close>

theorem tracker_lists_grow:
  assumes tr: "map_of (sanityTracker s) agentId = Some t"
    and keep: "\<not> replaces_tracker agentId c s"
  shows "\<exists>t'. map_of (sanityTracker (perform ts c s)) agentId = Some t'
           \<and> prefix (tr_history t) (tr_history t')
           \<and> prefix (tr_breakpoints t) (tr_breakpoints t')"
proof (cases c)
  case (RegisterAgent callsign a)
  with tr keep show ?thesis
    by (simp add: registerAgent_def Let_def AList.update_conv')
next
  case (UpdateAgentStatus k us)
  with updateAgentStatus_tracker_grows [OF tr, of ts k us] show ?thesis
    by simp
next
  case (ModifySanity k delta)
  with modifySanity_tracker_grows [OF tr, of ts k delta] show ?thesis
    by simp
next
  case (CreateTeam ti)
  with tr show ?thesis
    by (simp add: createTeam_def Let_def)
next
  case (ManageTeamDynamics k d)
  with tr show ?thesis
    by (simp add: manageTeamDynamics_def Let_def split: option.splits)
next
  case (CreateThreatAssessment ti)
  with tr show ?thesis
    by (simp add: createThreatAssessment_def Let_def)
next
  case (ResetCampaign cfg)
  with tr keep show ?thesis
    by (simp add: resetCampaign_def Let_def)
qed

theorem tracker_lists_grow_witness:
  "\<exists>t'. map_of (sanityTracker (perform ''T2'' (ModifySanity ''A1'' (- 70))
       (perform ''T1'' (ModifySanity ''A1'' (- 5))
         (perform ''T0'' (RegisterAgent ''Gray-7''
            \<lparr>in_id = Some ''A1'', in_name = None, in_role = None, in_callsign = None,
             in_sanity = Some 70, in_maxSanity = Some 70, in_status = None, in_notes = None\<rparr>)
            new_manager)))) ''A1'' = Some t'
     \<and> prefix [\<lparr>h_timestamp = ''T1'', h_delta = - 5, h_previous = 70, h_current = 65,
                 h_reason = []\<rparr>] (tr_history t')
     \<and> prefix [] (tr_breakpoints t')"
proof -
  let ?s = "perform ''T1'' (ModifySanity ''A1'' (- 5))
         (perform ''T0'' (RegisterAgent ''Gray-7''
            \<lparr>in_id = Some ''A1'', in_name = None, in_role = None, in_callsign = None,
             in_sanity = Some 70, in_maxSanity = Some 70, in_status = None, in_notes = None\<rparr>)
            new_manager)"
  have tr: "map_of (sanityTracker ?s) ''A1''
      = Some \<lparr>tr_current = 65, tr_max = 70,
              tr_history = [\<lparr>h_timestamp = ''T1'', h_delta = - 5, h_previous = 70,
                              h_current = 65, h_reason = []\<rparr>],
              tr_breakpoints = []\<rparr>"
    by (simp add: modifySanity_def registerAgent_def new_manager_def Let_def)
  have keep: "\<not> replaces_tracker ''A1'' (ModifySanity ''A1'' (- 70)) ?s"
    by simp
  from tracker_lists_grow [OF tr keep, of "''T2''"] show ?thesis
    by simp
qed

theorem registerAgent_resets_tracker_counterexample:
  "map_of (sanityTracker
       (perform ''T1'' (ModifySanity ''A1'' (- 5))
         (perform ''T0'' (RegisterAgent ''Gray-7''
            \<lparr>in_id = Some ''A1'', in_name = None, in_role = None, in_callsign = None,
             in_sanity = Some 70, in_maxSanity = Some 70, in_status = None, in_notes = None\<rparr>)
            new_manager))) ''A1''
     = Some \<lparr>tr_current = 65, tr_max = 70,
             tr_history = [\<lparr>h_timestamp = ''T1'', h_delta = - 5, h_previous = 70,
                             h_current = 65, h_reason = []\<rparr>],
             tr_breakpoints = []\<rparr>
   \<and> map_of (sanityTracker
       (perform ''T2'' (RegisterAgent ''Gray-7''
            \<lparr>in_id = Some ''A1'', in_name = None, in_role = None, in_callsign = None,
             in_sanity = Some 70, in_maxSanity = Some 70, in_status = None, in_notes = None\<rparr>)
         (perform ''T1'' (ModifySanity ''A1'' (- 5))
           (perform ''T0'' (RegisterAgent ''Gray-7''
              \<lparr>in_id = Some ''A1'', in_name = None, in_role = None, in_callsign = None,
               in_sanity = Some 70, in_maxSanity = Some 70, in_status = None, in_notes = None\<rparr>)
              new_manager)))) ''A1''
     = Some \<lparr>tr_current = 70, tr_max = 70, tr_history = [], tr_breakpoints = []\<rparr>"
  by (simp add: modifySanity_def registerAgent_def new_manager_def Let_def)

end
